theory Spec2Isabelle
  imports Main "HOL-Library.Word"
begin

section \<open>Strings of the program\<close>

text \<open>
  A JavaScript string is a sequence of UTF-16 code units; \<open>length\<close> and \<open>slice\<close> count
  code units.  String literals of the source are ASCII and are written \<open>lit ''...''\<close>.
\<close>

type_synonym jstring = "16 word list"

definition lit :: "string \<Rightarrow> jstring" where
  "lit s = map (\<lambda>c. word_of_nat (of_char c)) s"

text \<open>Path separator of \<open>path.join\<close> on the given platform.\<close>

datatype platform = Linux | Darwin | Win32

definition sep :: "platform \<Rightarrow> jstring" where
  "sep p = (case p of Win32 \<Rightarrow> lit [CHR 0x5C] | _ \<Rightarrow> lit ''/'')"

definition joinPath :: "platform \<Rightarrow> jstring \<Rightarrow> jstring \<Rightarrow> jstring" where
  "joinPath p dir file = dir @ sep p @ file"

section \<open>Data model (config.ts, paths.ts)\<close>

record RepoConfig =
  repoOwner :: "jstring option"
  repoName :: "jstring option"
  repoUrl :: "jstring option"
  repoBranch :: "jstring option"

record SyncConfig =
  repo :: "RepoConfig option"
  includeSecrets :: bool
  extraSecretPaths :: "jstring list"
  localRepoPath :: "jstring option"

record SyncState =
  lastPull :: "jstring option"
  lastPush :: "jstring option"
  lastRemoteUpdate :: "jstring option"

record SyncLocations =
  configRoot :: jstring
  dataRoot :: jstring
  syncConfigPath :: jstring
  overridesPath :: jstring
  statePath :: jstring
  defaultRepoDir :: jstring

record SyncItem =
  sourcePath :: jstring
  repoRelativePath :: jstring
  isSecret :: bool

record ExtraSecrets =
  allowlist :: "jstring list"

record SyncPlan =
  items :: "SyncItem list"
  extraSecrets :: ExtraSecrets
  planRepoRoot :: jstring

subsection \<open>Sync planner\<close>

text \<open>
  Modelled from the spec: \<open>buildSyncPlan\<close> of paths.ts, which is not among the sources
  (only its test is).  The plan starts from the fixed catalogue of regular paths below the
  configuration root; only when \<open>includeSecrets\<close> holds, the catalogue of secret paths
  below the data root is appended with \<open>isSecret = true\<close> and every entry of
  \<open>extraSecretPaths\<close> goes to the allowlist.  The catalogue entries are the ones the
  README lists.
\<close>

definition regularNames :: "jstring list" where
  "regularNames =
     [lit ''opencode.json'', lit ''opencode.jsonc'', lit ''AGENTS.md'', lit ''agent'',
      lit ''command'', lit ''mode'', lit ''tool'', lit ''themes'', lit ''plugin'']"

definition secretNames :: "jstring list" where
  "secretNames = [lit ''auth.json'', lit ''mcp-auth.json'']"

definition catalogItem :: "platform \<Rightarrow> jstring \<Rightarrow> bool \<Rightarrow> jstring \<Rightarrow> SyncItem" where
  "catalogItem p root secret n =
     \<lparr>sourcePath = joinPath p root n, repoRelativePath = n, isSecret = secret\<rparr>"

definition buildSyncPlan ::
  "SyncConfig \<Rightarrow> SyncLocations \<Rightarrow> jstring \<Rightarrow> platform \<Rightarrow> SyncPlan" where
  "buildSyncPlan config locations repoRoot p =
     (let regular = map (catalogItem p (configRoot locations) False) regularNames;
          secret = (if includeSecrets config
                    then map (catalogItem p (dataRoot locations) True) secretNames
                    else []);
          extra = (if includeSecrets config then extraSecretPaths config else [])
      in \<lparr>items = regular @ secret,
          extraSecrets = \<lparr>allowlist = extra\<rparr>,
          planRepoRoot = repoRoot\<rparr>)"

section \<open>JavaScript values and string operations\<close>

text \<open>
  The responses of the client are loosely typed (\<open>unknown\<close> in the source), so they are
  modelled as JSON-like values.  A number only matters through its truthiness; \<open>JNum 0\<close>
  stands for the falsy numbers.
\<close>

datatype jsval =
    JUndefined
  | JNull
  | JBool bool
  | JNum int
  | JStr jstring
  | JArr "jsval list"
  | JObj "(jstring \<times> jsval) list"

fun truthy :: "jsval \<Rightarrow> bool" where
  "truthy JUndefined = False"
| "truthy JNull = False"
| "truthy (JBool b) = b"
| "truthy (JNum n) = (n \<noteq> 0)"
| "truthy (JStr s) = (s \<noteq> [])"
| "truthy (JArr xs) = True"
| "truthy (JObj kvs) = True"

text \<open>\<open>typeof v === 'object'\<close>.\<close>

fun isObject :: "jsval \<Rightarrow> bool" where
  "isObject JNull = True"
| "isObject (JArr xs) = True"
| "isObject (JObj kvs) = True"
| "isObject v = False"

text \<open>
  Property read \<open>v.k\<close> on a value that is neither \<open>null\<close> nor \<open>undefined\<close>, for the keys the
  program reads (none of them is a built-in property of arrays, strings or numbers).
\<close>

fun getProp :: "jsval \<Rightarrow> jstring \<Rightarrow> jsval" where
  "getProp (JObj kvs) k = (case map_of kvs k of Some v \<Rightarrow> v | None \<Rightarrow> JUndefined)"
| "getProp v k = JUndefined"

text \<open>\<open>k in v\<close> on an object.\<close>

fun hasProp :: "jsval \<Rightarrow> jstring \<Rightarrow> bool" where
  "hasProp (JObj kvs) k = (map_of kvs k \<noteq> None)"
| "hasProp v k = False"

definition nullish :: "jsval \<Rightarrow> bool" where
  "nullish v = (v = JUndefined \<or> v = JNull)"

text \<open>\<open>a ?? b\<close> and \<open>v?.k\<close>.\<close>

definition coalesce :: "jsval \<Rightarrow> jsval \<Rightarrow> jsval" where
  "coalesce a b = (if nullish a then b else a)"

definition optProp :: "jsval \<Rightarrow> jstring \<Rightarrow> jsval" where
  "optProp v k = (if nullish v then JUndefined else getProp v k)"

text \<open>
  White space and line terminators of ECMAScript, the code units \<open>String.prototype.trim\<close>
  removes.
\<close>

definition isWhite :: "16 word \<Rightarrow> bool" where
  "isWhite c = (c \<in> {0x09, 0x0A, 0x0B, 0x0C, 0x0D, 0x20, 0xA0, 0x1680, 0x2028, 0x2029,
                      0x202F, 0x205F, 0x3000, 0xFEFF} \<or> (0x2000 \<le> c \<and> c \<le> 0x200A))"

definition trim :: "jstring \<Rightarrow> jstring" where
  "trim s = rev (dropWhile isWhite (rev (dropWhile isWhite s)))"

text \<open>\<open>s.split(c)\<close> for a separator of one code unit: never the empty list.\<close>

fun splitOn :: "'a \<Rightarrow> 'a list \<Rightarrow> 'a list list" where
  "splitOn c [] = [[]]"
| "splitOn c (x # xs) =
     (if x = c then [] # splitOn c xs
      else (case splitOn c xs of [] \<Rightarrow> [[x]] | seg # segs \<Rightarrow> (x # seg) # segs))"

text \<open>\<open>xs.join(s)\<close>.\<close>

fun joinWith :: "jstring \<Rightarrow> jstring list \<Rightarrow> jstring" where
  "joinWith s [] = []"
| "joinWith s [x] = x"
| "joinWith s (x # y # ys) = x @ s @ joinWith s (y # ys)"

definition newline :: "16 word" where
  "newline = 0x0A"

text \<open>\<open>String(n)\<close> for a natural number, and \<open>padStart(2, '0')\<close>.\<close>

definition digit :: "nat \<Rightarrow> 16 word" where
  "digit d = word_of_nat (48 + d)"

fun showNat :: "nat \<Rightarrow> jstring" where
  "showNat n = (if n < 10 then [digit n] else showNat (n div 10) @ [digit (n mod 10)])"

definition padStart2 :: "jstring \<Rightarrow> jstring" where
  "padStart2 s = replicate (2 - length s) (digit 0) @ s"

text \<open>
  The number that a getter of a \<open>Date\<close> returns: an integer, or \<open>NaN\<close> when the date is
  invalid; \<open>String(n)\<close> and \<open>n + 1\<close> on such a number.
\<close>

datatype jsnumber = NaN | Whole int

definition stringOfNumber :: "jsnumber \<Rightarrow> jstring" where
  "stringOfNumber n =
     (case n of
        NaN \<Rightarrow> lit ''NaN''
      | Whole i \<Rightarrow> if i < 0 then lit ''-'' @ showNat (nat (- i)) else showNat (nat i))"

definition plusOne :: "jsnumber \<Rightarrow> jsnumber" where
  "plusOne n = (case n of NaN \<Rightarrow> NaN | Whole i \<Rightarrow> Whole (i + 1))"

section \<open>Errors, the outside world and effects\<close>

text \<open>
  Every \<open>throw\<close> and every rejected promise is a value of \<open>error\<close>.  \<open>Thrown\<close> is any
  error an external capability raises.  A \<open>TypeError\<close> is raised by the engine and carries
  the message of the engine; the wording of V8 is used for it.
\<close>

datatype error =
    SyncConfigMissingError jstring
  | SyncCommandError jstring
  | SecretsPolicyViolation
  | TypeError jstring
  | Thrown jstring

definition notAFunction :: "jstring \<Rightarrow> error" where
  "notAFunction callee = TypeError (callee @ lit '' is not a function'')"

definition notReadable :: "jsval \<Rightarrow> jstring \<Rightarrow> error" where
  "notReadable v k =
     TypeError (lit ''Cannot read properties of '' @
                (if v = JNull then lit ''null'' else lit ''undefined'') @
                lit '' (reading '' @ [0x27] @ k @ [0x27] @ lit '')'')"

record RepoStatus =
  statusBranch :: jstring
  statusChanges :: "jstring list"

record ModelRef =
  providerID :: jstring
  modelID :: jstring

text \<open>
  A \<open>Date\<close>, as what its methods return.  \<open>toISOString\<close> is only called on the dates that
  \<open>new Date()\<close> gives, which are valid.
\<close>

record jsdate =
  getFullYear :: jsnumber
  getMonth :: jsnumber
  getDate :: jsnumber
  toISOString :: jstring

datatype variant = Info | Success | Warning | Error

datatype fileOp = ReadFile jstring | WriteFile jstring

type_synonym overrides = "(jstring \<times> jsval) list"

text \<open>
  The external capabilities (\<open>ctx.$\<close>, \<open>ctx.client\<close>, the file system, the clock and the
  functions of repo.ts and apply.ts, which are not among the sources): each answers from
  the state \<open>'w\<close> of the outside world, changes it, and may fail.
\<close>

record 'w ctx =
  isRepoCloned_p :: "jstring \<Rightarrow> 'w \<Rightarrow> (error + bool) \<times> 'w"
  ensureRepoCloned_p :: "SyncConfig \<Rightarrow> jstring \<Rightarrow> 'w \<Rightarrow> (error + unit) \<times> 'w"
  repoIsPrivate_p :: "SyncConfig \<Rightarrow> 'w \<Rightarrow> (error + bool) \<times> 'w"
  getRepoStatus_p :: "jstring \<Rightarrow> 'w \<Rightarrow> (error + RepoStatus) \<times> 'w"
  hasLocalChanges_p :: "jstring \<Rightarrow> 'w \<Rightarrow> (error + bool) \<times> 'w"
  fetchAndFastForward_p :: "jstring \<Rightarrow> jstring \<Rightarrow> 'w \<Rightarrow> (error + bool) \<times> 'w"
  commitAll_p :: "jstring \<Rightarrow> jstring \<Rightarrow> 'w \<Rightarrow> (error + unit) \<times> 'w"
  pushBranch_p :: "jstring \<Rightarrow> jstring \<Rightarrow> 'w \<Rightarrow> (error + unit) \<times> 'w"
  syncRepoToLocal_p :: "SyncPlan \<Rightarrow> overrides \<Rightarrow> 'w \<Rightarrow> (error + unit) \<times> 'w"
  syncLocalToRepo_p :: "SyncPlan \<Rightarrow> overrides \<Rightarrow> 'w \<Rightarrow> (error + unit) \<times> 'w"
  fileFault_p :: "fileOp \<Rightarrow> 'w \<Rightarrow> (error + unit) \<times> 'w"
  ghRepoCreate_p :: "jstring \<Rightarrow> jstring \<Rightarrow> bool \<Rightarrow> 'w \<Rightarrow> (error + unit) \<times> 'w"
  showToast_p :: "jstring \<Rightarrow> variant \<Rightarrow> 'w \<Rightarrow> (error + unit) \<times> 'w"
  newDate_p :: "'w \<Rightarrow> jsdate \<times> 'w"
  gitDiffNameStatus_p :: "jstring \<Rightarrow> 'w \<Rightarrow> (error + jstring) \<times> 'w"
  gitDiffStat_p :: "jstring \<Rightarrow> 'w \<Rightarrow> (error + jstring) \<times> 'w"
  configGet_p :: "'w \<Rightarrow> (error + jsval) \<times> 'w"
  sessionCreate_p :: "jstring \<Rightarrow> 'w \<Rightarrow> (error + jsval) \<times> 'w"
  sessionPrompt_p :: "jsval \<Rightarrow> ModelRef \<Rightarrow> jstring \<Rightarrow> 'w \<Rightarrow> (error + jsval) \<times> 'w"
  sessionDelete_p :: "jsval \<Rightarrow> 'w \<Rightarrow> (error + unit) \<times> 'w"

text \<open>Every call of a capability is recorded with its arguments and its outcome.\<close>

datatype event =
    IsRepoCloned jstring "error + bool"
  | EnsureRepoCloned SyncConfig jstring "error + unit"
  | RepoIsPrivate SyncConfig "error + bool"
  | GetRepoStatus jstring "error + RepoStatus"
  | HasLocalChanges jstring "error + bool"
  | FetchAndFastForward jstring jstring "error + bool"
  | CommitAll jstring jstring "error + unit"
  | PushBranch jstring jstring "error + unit"
  | SyncRepoToLocal SyncPlan overrides "error + unit"
  | SyncLocalToRepo SyncPlan overrides "error + unit"
  | LoadSyncConfig SyncLocations "error + unit"
  | WriteSyncConfig SyncLocations SyncConfig "error + unit"
  | LoadState SyncLocations "error + unit"
  | WriteState SyncLocations SyncState "error + unit"
  | LoadOverrides SyncLocations "error + unit"
  | GhRepoCreate jstring jstring bool "error + unit"
  | ShowToast jstring variant "error + unit"
  | GitDiffNameStatus jstring "error + jstring"
  | GitDiffStat jstring "error + jstring"
  | ConfigGet "error + jsval"
  | SessionCreate jstring "error + jsval"
  | SessionPrompt jsval ModelRef jstring "error + jsval"
  | SessionDelete jsval "error + unit"

text \<open>
  The state a flow runs in: the outside world, the record of the calls made so far, the
  process environment, and the three documents of config.ts by path.
\<close>

record 'w sys =
  world :: 'w
  trace :: "event list"
  procEnv :: "(jstring \<times> jstring) list"
  procPlatform :: platform
  configFiles :: "jstring \<rightharpoonup> SyncConfig"
  stateFiles :: "jstring \<rightharpoonup> SyncState"
  overridesFiles :: "jstring \<rightharpoonup> overrides"

text \<open>An asynchronous computation: it runs on the state and returns or throws.\<close>

type_synonym ('w, 'a) io = "'w sys \<Rightarrow> (error + 'a) \<times> 'w sys"

definition returnIO :: "'a \<Rightarrow> ('w, 'a) io" where
  "returnIO x = (\<lambda>s. (Inr x, s))"

definition throwIO :: "error \<Rightarrow> ('w, 'a) io" where
  "throwIO e = (\<lambda>s. (Inl e, s))"

definition bindIO :: "('w, 'a) io \<Rightarrow> ('a \<Rightarrow> ('w, 'b) io) \<Rightarrow> ('w, 'b) io" where
  "bindIO m f = (\<lambda>s. case m s of (Inl e, s') \<Rightarrow> (Inl e, s') | (Inr x, s') \<Rightarrow> f x s')"

text \<open>\<open>try { m } catch (e) { h e }\<close>.\<close>

definition catchIO :: "('w, 'a) io \<Rightarrow> (error \<Rightarrow> ('w, 'a) io) \<Rightarrow> ('w, 'a) io" where
  "catchIO m h = (\<lambda>s. case m s of (Inl e, s') \<Rightarrow> h e s' | (Inr x, s') \<Rightarrow> (Inr x, s'))"

text \<open>Reading and changing the documents and the environment of the state.\<close>

definition getsIO :: "('w sys \<Rightarrow> 'a) \<Rightarrow> ('w, 'a) io" where
  "getsIO f = (\<lambda>s. (Inr (f s), s))"

definition modifyIO :: "('w sys \<Rightarrow> 'w sys) \<Rightarrow> ('w, unit) io" where
  "modifyIO g = (\<lambda>s. (Inr (), g s))"

text \<open>The outcome of a computation as a value: nothing is thrown past \<open>attempt\<close>.\<close>

definition attempt :: "('w, 'a) io \<Rightarrow> ('w, error + 'a) io" where
  "attempt m = (\<lambda>s. case m s of (r, s') \<Rightarrow> (Inr r, s'))"

definition perform ::
  "('w \<Rightarrow> (error + 'a) \<times> 'w) \<Rightarrow> ((error + 'a) \<Rightarrow> event) \<Rightarrow> ('w, 'a) io" where
  "perform port ev =
     (\<lambda>s. case port (world s) of
             (r, w') \<Rightarrow> (r, s\<lparr>world := w', trace := trace s @ [ev r]\<rparr>))"

text \<open>\<open>new Date()\<close>.\<close>

definition newDate :: "'w ctx \<Rightarrow> ('w, jsdate) io" where
  "newDate c = (\<lambda>s. case newDate_p c (world s) of (d, w') \<Rightarrow> (Inr d, s\<lparr>world := w'\<rparr>))"

section \<open>Commit message generator (commit.ts)\<close>

definition formatDate :: "jsdate \<Rightarrow> jstring" where
  "formatDate date =
     (let year = stringOfNumber (getFullYear date);
          month = padStart2 (stringOfNumber (plusOne (getMonth date)));
          day = padStart2 (stringOfNumber (getDate date))
      in year @ lit ''-'' @ month @ lit ''-'' @ day)"

definition unwrapData :: "jsval \<Rightarrow> jsval" where
  "unwrapData response =
     (if \<not> truthy response \<or> \<not> isObject response then JNull
      else if truthy (getProp response (lit ''error'')) then JNull
      else if hasProp response (lit ''data'') then
        (let d = getProp response (lit ''data'') in if d \<noteq> JUndefined then d else JNull)
      else response)"

text \<open>
  \<open>parts.find((part) => part.type === 'text' && part.text)\<close>: reading \<open>type\<close> of a
  \<open>null\<close> or \<open>undefined\<close> element is a \<open>TypeError\<close>.
\<close>

fun findTextPart :: "jsval list \<Rightarrow> error + jsval option" where
  "findTextPart [] = Inr None"
| "findTextPart (part # rest) =
     (if nullish part then Inl (notReadable part (lit ''type''))
      else if getProp part (lit ''type'') = JStr (lit ''text'') \<and> truthy (getProp part (lit ''text''))
      then Inr (Some part)
      else findTextPart rest)"

text \<open>
  \<open>extractMessage\<close>.  \<open>find\<close> exists on arrays only, and \<open>trim\<close> on strings only; elsewhere
  the call is a \<open>TypeError\<close>.  The result \<open>None\<close> is \<open>null\<close>.
\<close>

definition extractMessage :: "jsval \<Rightarrow> error + jstring option" where
  "extractMessage response =
     (if \<not> truthy response \<or> \<not> isObject response then Inr None
      else
        (let parts = coalesce (getProp response (lit ''parts''))
                       (coalesce (optProp (getProp response (lit ''info'')) (lit ''parts''))
                          (JArr []))
         in case parts of
              JArr ps \<Rightarrow>
                (case findTextPart ps of
                   Inl e \<Rightarrow> Inl e
                 | Inr None \<Rightarrow> Inr None
                 | Inr (Some textPart) \<Rightarrow>
                     (case getProp textPart (lit ''text'') of
                        JStr t \<Rightarrow> Inr (Some (trim t))
                      | _ \<Rightarrow> Inl (notAFunction (lit ''textPart?.text?.trim''))))
            | _ \<Rightarrow> Inl (notAFunction (lit ''parts.find''))))"

definition isQuote :: "16 word \<Rightarrow> bool" where
  "isQuote c = (c \<in> {0x22, 0x27, 0x60})"

text \<open>
  \<open>s.replace(/^["'`]+|["'`]+$/g, '')\<close>: the run of quote characters at the start and the
  run at the end are removed.
\<close>

definition stripQuotes :: "jstring \<Rightarrow> jstring" where
  "stripQuotes s = rev (dropWhile isQuote (rev (dropWhile isQuote s)))"

definition firstSegment :: "'a list list \<Rightarrow> 'a list" where
  "firstSegment segs = (case segs of [] \<Rightarrow> [] | seg # _ \<Rightarrow> seg)"

definition sanitizeMessage :: "jstring \<Rightarrow> jstring" where
  "sanitizeMessage message =
     (let firstLine = trim (firstSegment (splitOn newline message));
          trimmed = trim (stripQuotes firstLine)
      in if trimmed = [] then []
         else if length trimmed \<le> 72 then trimmed
         else trim (take 72 trimmed))"

text \<open>
  \<open>resolveSmallModel\<close>.  The failure of \<open>client.config.get()\<close> is caught; \<open>split\<close> on a
  value that is not a string is a \<open>TypeError\<close> outside the \<open>try\<close>.
\<close>

definition modelOfValue :: "jsval \<Rightarrow> error + ModelRef option" where
  "modelOfValue modelValue =
     (if \<not> truthy modelValue then Inr None
      else case modelValue of
        JStr s \<Rightarrow>
          (case take 2 (splitOn (0x2F :: 16 word) s) of
             [p, m] \<Rightarrow> if p = [] \<or> m = [] then Inr None
                       else Inr (Some \<lparr>providerID = p, modelID = m\<rparr>)
           | _ \<Rightarrow> Inr None)
      | _ \<Rightarrow> Inl (notAFunction (lit ''modelValue.split'')))"

definition resolveSmallModel :: "'w ctx \<Rightarrow> ('w, ModelRef option) io" where
  "resolveSmallModel c =
     bindIO (catchIO (bindIO (perform (configGet_p c) ConfigGet)
                        (\<lambda>response. returnIO (unwrapData response)))
               (\<lambda>e. returnIO JNull))
       (\<lambda>config.
          if \<not> truthy config then returnIO None
          else (let modelValue = coalesce (getProp config (lit ''small_model''))
                                   (getProp config (lit ''model''))
                in case modelOfValue modelValue of
                     Inl e \<Rightarrow> throwIO e
                   | Inr m \<Rightarrow> returnIO m))"

definition summaryText :: "jstring \<Rightarrow> jstring \<Rightarrow> jstring" where
  "summaryText nameStatus stats =
     joinWith [newline] (filter (\<lambda>x. x \<noteq> []) [trim nameStatus, trim stats])"

definition getDiffSummary :: "'w ctx \<Rightarrow> jstring \<Rightarrow> ('w, jstring) io" where
  "getDiffSummary c repoDir =
     catchIO
       (bindIO (perform (gitDiffNameStatus_p c repoDir) (GitDiffNameStatus repoDir))
          (\<lambda>nameStatus.
             bindIO (perform (gitDiffStat_p c repoDir) (GitDiffStat repoDir))
               (\<lambda>stats. returnIO (summaryText nameStatus stats))))
       (\<lambda>e. returnIO [])"

definition fallbackMessage :: "jsdate \<Rightarrow> jstring" where
  "fallbackMessage fallbackDate = lit ''Sync OpenCode config ('' @ formatDate fallbackDate @ lit '')''"

definition commitPrompt :: "jstring \<Rightarrow> jstring" where
  "commitPrompt diffSummary =
     joinWith [newline]
       [lit ''Generate a concise single-line git commit message (max 72 chars).'',
        lit ''Focus on OpenCode config sync changes.'',
        lit ''Return only the message, no quotes.'',
        [],
        lit ''Diff summary:'',
        diffSummary]"

text \<open>\<open>const session = unwrapData(sessionResult); sessionId = session?.id ?? null\<close>.\<close>

definition sessionIdOf :: "jsval \<Rightarrow> jsval" where
  "sessionIdOf sessionResult =
     (let session = unwrapData sessionResult in coalesce (optProp session (lit ''id'')) JNull)"

text \<open>
  What the \<open>try\<close> block makes of the response of the prompt: the outcome is \<open>Inl\<close> when
  \<open>extractMessage\<close> threw.
\<close>

definition messageOfResponse :: "jstring \<Rightarrow> jsval \<Rightarrow> error + jstring" where
  "messageOfResponse fallback response =
     (case extractMessage (coalesce (unwrapData response) response) of
        Inl e \<Rightarrow> Inl e
      | Inr None \<Rightarrow> Inr fallback
      | Inr (Some message) \<Rightarrow>
          if message = [] then Inr fallback
          else (let sanitized = sanitizeMessage message
                in Inr (if sanitized \<noteq> [] then sanitized else fallback)))"

text \<open>
  The \<open>try\<close> block of \<open>generateCommitMessage\<close>.  It assigns the variable \<open>sessionId\<close>, which
  the \<open>finally\<close> block reads, so it returns the value of the variable beside its outcome
  (\<open>Inl\<close> when it threw).
\<close>

definition promptSession ::
  "'w ctx \<Rightarrow> ModelRef \<Rightarrow> jstring \<Rightarrow> jstring \<Rightarrow> ('w, (error + jstring) \<times> jsval) io" where
  "promptSession c model prompt fallback =
     bindIO (attempt (perform (sessionCreate_p c (lit ''opencode-sync''))
                        (SessionCreate (lit ''opencode-sync''))))
       (\<lambda>created.
          case created of
            Inl e \<Rightarrow> returnIO (Inl e, JNull)
          | Inr sessionResult \<Rightarrow>
              (let sessionId = sessionIdOf sessionResult
               in if \<not> truthy sessionId then returnIO (Inr fallback, sessionId)
                  else
                    bindIO (attempt (perform (sessionPrompt_p c sessionId model prompt)
                                       (SessionPrompt sessionId model prompt)))
                      (\<lambda>prompted.
                         case prompted of
                           Inl e \<Rightarrow> returnIO (Inl e, sessionId)
                         | Inr response \<Rightarrow>
                             returnIO (messageOfResponse fallback response, sessionId))))"

text \<open>The \<open>finally\<close> block: the session is deleted, and a failure of that is ignored.\<close>

definition releaseSession :: "'w ctx \<Rightarrow> jsval \<Rightarrow> ('w, unit) io" where
  "releaseSession c sessionId =
     (if truthy sessionId
      then catchIO (perform (sessionDelete_p c sessionId) (SessionDelete sessionId))
             (\<lambda>e. returnIO ())
      else returnIO ())"

definition generateCommitMessage :: "'w ctx \<Rightarrow> jstring \<Rightarrow> jsdate \<Rightarrow> ('w, jstring) io" where
  "generateCommitMessage c repoDir fallbackDate =
     (let fallback = fallbackMessage fallbackDate in
      bindIO (getDiffSummary c repoDir)
        (\<lambda>diffSummary.
           if diffSummary = [] then returnIO fallback
           else
             bindIO (resolveSmallModel c)
               (\<lambda>model.
                  case model of
                    None \<Rightarrow> returnIO fallback
                  | Some m \<Rightarrow>
                      bindIO (promptSession c m (commitPrompt diffSummary) fallback)
                        (\<lambda>(outcome, sessionId).
                           bindIO (releaseSession c sessionId)
                             (\<lambda>u. returnIO (case outcome of
                                                Inl e \<Rightarrow> fallback
                                              | Inr message \<Rightarrow> message))))))"

section \<open>Configuration, state and overrides documents (config.ts)\<close>

text \<open>
  Modelled from the spec: config.ts is not among the sources.  The three documents are
  read from and written to the path that the locations give, the configuration in its
  normalised form; reading a missing state or overrides document gives the empty one.
  An access may fail (\<open>fileFault_p\<close>) and then changes nothing.
\<close>

definition normalizeSyncConfig :: "SyncConfig \<Rightarrow> SyncConfig" where
  "normalizeSyncConfig raw = raw"

definition loadSyncConfig :: "'w ctx \<Rightarrow> SyncLocations \<Rightarrow> ('w, SyncConfig option) io" where
  "loadSyncConfig c locations =
     bindIO (perform (fileFault_p c (ReadFile (syncConfigPath locations)))
               (LoadSyncConfig locations))
       (\<lambda>u. getsIO (\<lambda>s. configFiles s (syncConfigPath locations)))"

definition writeSyncConfig :: "'w ctx \<Rightarrow> SyncLocations \<Rightarrow> SyncConfig \<Rightarrow> ('w, unit) io" where
  "writeSyncConfig c locations config =
     bindIO (perform (fileFault_p c (WriteFile (syncConfigPath locations)))
               (WriteSyncConfig locations config))
       (\<lambda>u. modifyIO (\<lambda>s. s\<lparr>configFiles :=
                                  (configFiles s)(syncConfigPath locations \<mapsto> config)\<rparr>))"

definition emptyState :: SyncState where
  "emptyState = \<lparr>lastPull = None, lastPush = None, lastRemoteUpdate = None\<rparr>"

definition storedState :: "'w sys \<Rightarrow> SyncLocations \<Rightarrow> SyncState" where
  "storedState s locations =
     (case stateFiles s (statePath locations) of None \<Rightarrow> emptyState | Some st \<Rightarrow> st)"

definition loadState :: "'w ctx \<Rightarrow> SyncLocations \<Rightarrow> ('w, SyncState) io" where
  "loadState c locations =
     bindIO (perform (fileFault_p c (ReadFile (statePath locations))) (LoadState locations))
       (\<lambda>u. getsIO (\<lambda>s. storedState s locations))"

text \<open>
  Modelled from the spec: \<open>writeState\<close>.  Each field that the written state gives replaces
  the persisted field as a whole; a field it does not give stays as it is.
\<close>

definition replaceFields :: "SyncState \<Rightarrow> SyncState \<Rightarrow> SyncState" where
  "replaceFields old new =
     \<lparr>lastPull = (case lastPull new of Some t \<Rightarrow> Some t | None \<Rightarrow> lastPull old),
      lastPush = (case lastPush new of Some t \<Rightarrow> Some t | None \<Rightarrow> lastPush old),
      lastRemoteUpdate =
        (case lastRemoteUpdate new of Some t \<Rightarrow> Some t | None \<Rightarrow> lastRemoteUpdate old)\<rparr>"

definition writeState :: "'w ctx \<Rightarrow> SyncLocations \<Rightarrow> SyncState \<Rightarrow> ('w, unit) io" where
  "writeState c locations st =
     bindIO (perform (fileFault_p c (WriteFile (statePath locations))) (WriteState locations st))
       (\<lambda>u. modifyIO (\<lambda>s. s\<lparr>stateFiles :=
                 (stateFiles s)(statePath locations \<mapsto> replaceFields (storedState s locations) st)\<rparr>))"

definition loadOverrides :: "'w ctx \<Rightarrow> SyncLocations \<Rightarrow> ('w, overrides) io" where
  "loadOverrides c locations =
     bindIO (perform (fileFault_p c (ReadFile (overridesPath locations)))
               (LoadOverrides locations))
       (\<lambda>u. getsIO (\<lambda>s. case overridesFiles s (overridesPath locations) of
                             None \<Rightarrow> [] | Some ov \<Rightarrow> ov))"

section \<open>Locations (paths.ts)\<close>

text \<open>
  Modelled from the spec: \<open>resolveXdgPaths\<close>, \<open>resolveSyncLocations\<close> and \<open>resolveRepoRoot\<close>
  of paths.ts, from section 3 of the spec, the tests of paths.ts and the paths the README
  names.  The locations are a function of the environment and the platform.
\<close>

definition envGet :: "(jstring \<times> jstring) list \<Rightarrow> jstring \<Rightarrow> jstring" where
  "envGet env k = (case map_of env k of Some v \<Rightarrow> v | None \<Rightarrow> [])"

definition xdgConfigDir :: "(jstring \<times> jstring) list \<Rightarrow> platform \<Rightarrow> jstring" where
  "xdgConfigDir env p =
     (case p of
        Win32 \<Rightarrow> envGet env (lit ''APPDATA'')
      | _ \<Rightarrow> joinPath p (envGet env (lit ''HOME'')) (lit ''.config''))"

definition xdgDataDir :: "(jstring \<times> jstring) list \<Rightarrow> platform \<Rightarrow> jstring" where
  "xdgDataDir env p =
     (case p of
        Win32 \<Rightarrow> envGet env (lit ''LOCALAPPDATA'')
      | _ \<Rightarrow> joinPath p (joinPath p (envGet env (lit ''HOME'')) (lit ''.local'')) (lit ''share''))"

definition resolveSyncLocations :: "(jstring \<times> jstring) list \<Rightarrow> platform \<Rightarrow> SyncLocations" where
  "resolveSyncLocations env p =
     (let root = (case map_of env (lit ''OPENCODE_CONFIG_DIR'') of
                    Some dir \<Rightarrow> dir
                  | None \<Rightarrow> joinPath p (xdgConfigDir env p) (lit ''opencode''));
          dataDir = joinPath p (xdgDataDir env p) (lit ''opencode'');
          syncDir = joinPath p dataDir (lit ''opencode-sync'')
      in \<lparr>configRoot = root,
          dataRoot = dataDir,
          syncConfigPath = joinPath p root (lit ''opencode-sync.jsonc''),
          overridesPath = joinPath p root (lit ''opencode-sync.overrides.jsonc''),
          statePath = joinPath p syncDir (lit ''state.json''),
          defaultRepoDir = joinPath p syncDir (lit ''repo'')\<rparr>)"

definition resolveRepoRoot :: "SyncConfig \<Rightarrow> SyncLocations \<Rightarrow> jstring" where
  "resolveRepoRoot config locations =
     (case localRepoPath config of Some path \<Rightarrow> path | None \<Rightarrow> defaultRepoDir locations)"

section \<open>Repository gateway (repo.ts)\<close>

text \<open>
  repo.ts is not among the sources.  Its operations on the clone and the remote are the
  capabilities of \<open>ctx\<close>; what it computes from the configuration is modelled here.
\<close>

definition isRepoCloned :: "'w ctx \<Rightarrow> jstring \<Rightarrow> ('w, bool) io" where
  "isRepoCloned c repoRoot = perform (isRepoCloned_p c repoRoot) (IsRepoCloned repoRoot)"

definition ensureRepoCloned :: "'w ctx \<Rightarrow> SyncConfig \<Rightarrow> jstring \<Rightarrow> ('w, unit) io" where
  "ensureRepoCloned c config repoRoot =
     perform (ensureRepoCloned_p c config repoRoot) (EnsureRepoCloned config repoRoot)"

definition getRepoStatus :: "'w ctx \<Rightarrow> jstring \<Rightarrow> ('w, RepoStatus) io" where
  "getRepoStatus c repoRoot = perform (getRepoStatus_p c repoRoot) (GetRepoStatus repoRoot)"

definition hasLocalChanges :: "'w ctx \<Rightarrow> jstring \<Rightarrow> ('w, bool) io" where
  "hasLocalChanges c repoRoot = perform (hasLocalChanges_p c repoRoot) (HasLocalChanges repoRoot)"

definition fetchAndFastForward :: "'w ctx \<Rightarrow> jstring \<Rightarrow> jstring \<Rightarrow> ('w, bool) io" where
  "fetchAndFastForward c repoRoot branch =
     perform (fetchAndFastForward_p c repoRoot branch) (FetchAndFastForward repoRoot branch)"

definition commitAll :: "'w ctx \<Rightarrow> jstring \<Rightarrow> jstring \<Rightarrow> ('w, unit) io" where
  "commitAll c repoRoot message =
     perform (commitAll_p c repoRoot message) (CommitAll repoRoot message)"

definition pushBranch :: "'w ctx \<Rightarrow> jstring \<Rightarrow> jstring \<Rightarrow> ('w, unit) io" where
  "pushBranch c repoRoot branch =
     perform (pushBranch_p c repoRoot branch) (PushBranch repoRoot branch)"

text \<open>
  Modelled from the spec: \<open>ensureRepoPrivate\<close> asks for the visibility of the remote and
  fails, with the secrets policy violation, if secrets are enabled and the remote is not
  private.
\<close>

definition ensureRepoPrivate :: "'w ctx \<Rightarrow> SyncConfig \<Rightarrow> ('w, unit) io" where
  "ensureRepoPrivate c config =
     bindIO (perform (repoIsPrivate_p c config) (RepoIsPrivate config))
       (\<lambda>isPrivate.
          if includeSecrets config \<and> \<not> isPrivate then throwIO SecretsPolicyViolation
          else returnIO ())"

text \<open>
  Modelled from the spec: \<open>resolveRepoBranch\<close>: the configured branch wins, else the
  observed one, else a fixed default; and \<open>resolveRepoIdentifier\<close>: the URL, or
  \<open>owner/name\<close>.
\<close>

definition defaultBranch :: jstring where
  "defaultBranch = lit ''main''"

definition resolveRepoBranch :: "SyncConfig \<Rightarrow> jstring option \<Rightarrow> jstring" where
  "resolveRepoBranch config observed =
     (case Option.bind (repo config) repoBranch of
        Some b \<Rightarrow> b
      | None \<Rightarrow> (case observed of Some b \<Rightarrow> b | None \<Rightarrow> defaultBranch))"

definition orEmpty :: "jstring option \<Rightarrow> jstring" where
  "orEmpty x = (case x of Some v \<Rightarrow> v | None \<Rightarrow> [])"

definition resolveRepoIdentifier :: "SyncConfig \<Rightarrow> jstring" where
  "resolveRepoIdentifier config =
     (case repo config of
        None \<Rightarrow> []
      | Some r \<Rightarrow>
          (case repoUrl r of
             Some u \<Rightarrow> u
           | None \<Rightarrow> orEmpty (repoOwner r) @ lit ''/'' @ orEmpty (repoName r)))"

section \<open>Reconciler (apply.ts)\<close>

text \<open>apply.ts is not among the sources: its two operations are capabilities.\<close>

definition syncRepoToLocal :: "'w ctx \<Rightarrow> SyncPlan \<Rightarrow> overrides \<Rightarrow> ('w, unit) io" where
  "syncRepoToLocal c plan ov = perform (syncRepoToLocal_p c plan ov) (SyncRepoToLocal plan ov)"

definition syncLocalToRepo :: "'w ctx \<Rightarrow> SyncPlan \<Rightarrow> overrides \<Rightarrow> ('w, unit) io" where
  "syncLocalToRepo c plan ov = perform (syncLocalToRepo_p c plan ov) (SyncLocalToRepo plan ov)"

section \<open>Sync service (service.ts)\<close>

record InitOptions =
  optRepo :: "jstring option"
  optOwner :: "jstring option"
  optName :: "jstring option"
  optUrl :: "jstring option"
  optBranch :: "jstring option"
  optIncludeSecrets :: "bool option"
  optCreate :: "bool option"
  optPrivate :: "bool option"
  optExtraSecretPaths :: "jstring list option"
  optLocalRepoPath :: "jstring option"

text \<open>Truthiness of an optional string: there and not empty.\<close>

definition present :: "jstring option \<Rightarrow> bool" where
  "present x = (case x of Some v \<Rightarrow> v \<noteq> [] | None \<Rightarrow> False)"

text \<open>\<open>s.includes(sub)\<close> and \<open>s.endsWith(suffix)\<close>.\<close>

fun includesStr :: "jstring \<Rightarrow> jstring \<Rightarrow> bool" where
  "includesStr sub [] = (sub = [])"
| "includesStr sub (x # xs) = (take (length sub) (x # xs) = sub \<or> includesStr sub xs)"

definition endsWith :: "jstring \<Rightarrow> jstring \<Rightarrow> bool" where
  "endsWith suffix s = (length suffix \<le> length s \<and> drop (length s - length suffix) s = suffix)"

text \<open>
  \<open>formatError\<close>: every error here is an \<open>Error\<close>, and the result is its message.
  Modelled from the spec: the message of the secrets policy violation, which repo.ts
  raises and which is not among the sources.
\<close>

definition formatError :: "error \<Rightarrow> jstring" where
  "formatError e =
     (case e of
        SyncConfigMissingError m \<Rightarrow> m
      | SyncCommandError m \<Rightarrow> m
      | SecretsPolicyViolation \<Rightarrow> lit ''Secrets sync requires a private repo.''
      | TypeError m \<Rightarrow> m
      | Thrown m \<Rightarrow> m)"

definition showToast :: "'w ctx \<Rightarrow> jstring \<Rightarrow> variant \<Rightarrow> ('w, unit) io" where
  "showToast c message v =
     perform (showToast_p c (lit ''opencode-sync: '' @ message) v)
       (ShowToast (lit ''opencode-sync: '' @ message) v)"

definition resolveRepoFromInit :: "InitOptions \<Rightarrow> RepoConfig option" where
  "resolveRepoFromInit options =
     (if present (optUrl options)
      then Some \<lparr>repoOwner = None, repoName = None, repoUrl = optUrl options,
                 repoBranch = optBranch options\<rparr>
      else if present (optOwner options) \<and> present (optName options)
      then Some \<lparr>repoOwner = optOwner options, repoName = optName options, repoUrl = None,
                 repoBranch = optBranch options\<rparr>
      else if present (optRepo options)
      then (let r = orEmpty (optRepo options)
            in if includesStr (lit ''://'') r \<or> endsWith (lit ''.git'') r
               then Some \<lparr>repoOwner = None, repoName = None, repoUrl = Some r,
                          repoBranch = optBranch options\<rparr>
               else (case splitOn (0x2F :: 16 word) r of
                       owner # name # rest \<Rightarrow>
                         if owner \<noteq> [] \<and> name \<noteq> []
                         then Some \<lparr>repoOwner = Some owner, repoName = Some name, repoUrl = None,
                                    repoBranch = optBranch options\<rparr>
                         else None
                     | _ \<Rightarrow> None))
      else None)"

definition buildConfigFromInit :: "InitOptions \<Rightarrow> SyncConfig" where
  "buildConfigFromInit options =
     (let repo = resolveRepoFromInit options
      in normalizeSyncConfig
           \<lparr>repo = repo,
            includeSecrets = (case optIncludeSecrets options of Some b \<Rightarrow> b | None \<Rightarrow> False),
            extraSecretPaths = (case optExtraSecretPaths options of Some ps \<Rightarrow> ps | None \<Rightarrow> []),
            localRepoPath = optLocalRepoPath options\<rparr>)"

definition createRepo :: "'w ctx \<Rightarrow> SyncConfig \<Rightarrow> bool \<Rightarrow> ('w, unit) io" where
  "createRepo c config isPrivate =
     (let owner = Option.bind (repo config) repoOwner;
          name = Option.bind (repo config) repoName
      in if \<not> present owner \<or> \<not> present name
         then throwIO (SyncCommandError (lit ''Repo creation requires owner/name.''))
         else catchIO
                (perform (ghRepoCreate_p c (orEmpty owner) (orEmpty name) isPrivate)
                   (GhRepoCreate (orEmpty owner) (orEmpty name) isPrivate))
                (\<lambda>error. throwIO (SyncCommandError
                                   (lit ''Failed to create repo: '' @ formatError error))))"

definition getConfigOrThrow :: "'w ctx \<Rightarrow> SyncLocations \<Rightarrow> ('w, SyncConfig) io" where
  "getConfigOrThrow c locations =
     bindIO (loadSyncConfig c locations)
       (\<lambda>config.
          case config of
            None \<Rightarrow> throwIO (SyncConfigMissingError
                      (lit ''Missing opencode-sync config. Run /opencode-sync-init to set it up.''))
          | Some config \<Rightarrow> returnIO config)"

definition ensureSecretsPolicy :: "'w ctx \<Rightarrow> SyncConfig \<Rightarrow> ('w, unit) io" where
  "ensureSecretsPolicy c config =
     (if \<not> includeSecrets config then returnIO () else ensureRepoPrivate c config)"

definition resolveBranch :: "'w ctx \<Rightarrow> SyncConfig \<Rightarrow> jstring \<Rightarrow> ('w, jstring) io" where
  "resolveBranch c config repoRoot =
     catchIO
       (bindIO (getRepoStatus c repoRoot)
          (\<lambda>status. returnIO (resolveRepoBranch config (Some (statusBranch status)))))
       (\<lambda>e. returnIO (resolveRepoBranch config None))"

text \<open>\<open>new Date().toISOString()\<close>.\<close>

definition nowISO :: "'w ctx \<Rightarrow> ('w, jstring) io" where
  "nowISO c = bindIO (newDate c) (\<lambda>d. returnIO (toISOString d))"

text \<open>
  \<open>generateCommitMessage(ctx, repoRoot)\<close> as the service calls it: the third parameter takes
  its default, \<open>new Date()\<close>.
\<close>

definition generateCommitMessageNow :: "'w ctx \<Rightarrow> jstring \<Rightarrow> ('w, jstring) io" where
  "generateCommitMessageNow c repoRoot =
     bindIO (newDate c) (\<lambda>d. generateCommitMessage c repoRoot d)"

text \<open>
  \<open>buildSyncPlan(config, locations, repoRoot)\<close> as the service calls it: the fourth
  parameter takes its default, the platform of the process.
\<close>

definition planNow :: "SyncConfig \<Rightarrow> SyncLocations \<Rightarrow> jstring \<Rightarrow> ('w, SyncPlan) io" where
  "planNow config locations repoRoot =
     getsIO (\<lambda>s. buildSyncPlan config locations repoRoot (procPlatform s))"

definition pulledState :: "jstring \<Rightarrow> jstring \<Rightarrow> SyncState" where
  "pulledState t1 t2 = \<lparr>lastPull = Some t1, lastPush = None, lastRemoteUpdate = Some t2\<rparr>"

definition pushedState :: "jstring \<Rightarrow> SyncState" where
  "pushedState t = \<lparr>lastPull = None, lastPush = Some t, lastRemoteUpdate = None\<rparr>"

definition runStartup :: "'w ctx \<Rightarrow> SyncLocations \<Rightarrow> SyncConfig \<Rightarrow> ('w, unit) io" where
  "runStartup c locations config =
     (let repoRoot = resolveRepoRoot config locations in
      bindIO (ensureRepoCloned c config repoRoot) (\<lambda>u.
      bindIO (ensureSecretsPolicy c config) (\<lambda>u.
      bindIO (resolveBranch c config repoRoot) (\<lambda>branch.
      bindIO (hasLocalChanges c repoRoot) (\<lambda>dirty.
        if dirty
        then showToast c
               (lit ''Local sync repo has uncommitted changes in '' @ repoRoot @
                lit ''. Resolve before sync.'') Warning
        else
          bindIO (fetchAndFastForward c repoRoot branch) (\<lambda>updated.
            if updated
            then
              bindIO (loadOverrides c locations) (\<lambda>ov.
              bindIO (planNow config locations repoRoot) (\<lambda>plan.
              bindIO (syncRepoToLocal c plan ov) (\<lambda>u.
              bindIO (nowISO c) (\<lambda>t1.
              bindIO (nowISO c) (\<lambda>t2.
              bindIO (writeState c locations (pulledState t1 t2)) (\<lambda>u.
              showToast c (lit ''Config updated. Restart OpenCode to apply.'') Info))))))
            else
              bindIO (loadOverrides c locations) (\<lambda>ov.
              bindIO (planNow config locations repoRoot) (\<lambda>plan.
              bindIO (syncLocalToRepo c plan ov) (\<lambda>u.
              bindIO (hasLocalChanges c repoRoot) (\<lambda>changes.
                if \<not> changes then returnIO ()
                else
                  bindIO (generateCommitMessageNow c repoRoot) (\<lambda>message.
                  bindIO (commitAll c repoRoot message) (\<lambda>u.
                  bindIO (pushBranch c repoRoot branch) (\<lambda>u.
                  bindIO (nowISO c) (\<lambda>t.
                  writeState c locations (pushedState t)))))))))))))))"

text \<open>
  The service: the context and the locations that \<open>createSyncService\<close> computed when it
  was called, which its operations close over.
\<close>

record 'w SyncService =
  svcCtx :: "'w ctx"
  svcLocations :: SyncLocations

definition createSyncService :: "'w ctx \<Rightarrow> 'w sys \<Rightarrow> 'w SyncService" where
  "createSyncService c s =
     \<lparr>svcCtx = c, svcLocations = resolveSyncLocations (procEnv s) (procPlatform s)\<rparr>"

definition startupSync :: "'w SyncService \<Rightarrow> ('w, unit) io" where
  "startupSync svc =
     (let c = svcCtx svc; locations = svcLocations svc in
      bindIO (loadSyncConfig c locations) (\<lambda>config.
        case config of
          None \<Rightarrow> showToast c (lit ''Configure opencode-sync with /opencode-sync-init.'') Info
        | Some config \<Rightarrow>
            catchIO (runStartup c locations config)
              (\<lambda>error. showToast c (formatError error) Error)))"

definition changesLabelOf :: "bool \<Rightarrow> jstring list \<Rightarrow> jstring" where
  "changesLabelOf cloned repoStatus =
     (if \<not> cloned then lit ''not cloned''
      else (case repoStatus of
              [] \<Rightarrow> lit ''clean''
            | first # rest \<Rightarrow>
                if first = lit ''Repo status unavailable'' then lit ''unknown''
                else showNat (length repoStatus) @ lit '' pending''))"

definition status :: "'w SyncService \<Rightarrow> ('w, jstring) io" where
  "status svc =
     (let c = svcCtx svc; locations = svcLocations svc in
      bindIO (loadSyncConfig c locations) (\<lambda>config.
        case config of
          None \<Rightarrow>
            returnIO (lit ''opencode-sync is not configured. Run /opencode-sync-init to set it up.'')
        | Some config \<Rightarrow>
            (let repoRoot = resolveRepoRoot config locations in
             bindIO (loadState c locations) (\<lambda>state.
             bindIO (isRepoCloned c repoRoot) (\<lambda>cloned.
             bindIO
               (if \<not> cloned
                then returnIO ([lit ''Repo not cloned''], resolveRepoBranch config None)
                else catchIO
                       (bindIO (getRepoStatus c repoRoot)
                          (\<lambda>st. returnIO (statusChanges st, statusBranch st)))
                       (\<lambda>e. returnIO ([lit ''Repo status unavailable''],
                                      resolveRepoBranch config None)))
               (\<lambda>(repoStatus, branch).
                  returnIO (joinWith [newline]
                    [lit ''Repo: '' @ resolveRepoIdentifier config,
                     lit ''Branch: '' @ branch,
                     lit ''Secrets: '' @
                       (if includeSecrets config then lit ''enabled'' else lit ''disabled''),
                     lit ''Last pull: '' @
                       (case lastPull state of Some t \<Rightarrow> t | None \<Rightarrow> lit ''never''),
                     lit ''Last push: '' @
                       (case lastPush state of Some t \<Rightarrow> t | None \<Rightarrow> lit ''never''),
                     lit ''Working tree: '' @ changesLabelOf cloned repoStatus])))))))"

definition init :: "'w SyncService \<Rightarrow> InitOptions \<Rightarrow> ('w, jstring) io" where
  "init svc options =
     (let c = svcCtx svc; locations = svcLocations svc;
          config = buildConfigFromInit options in
      if repo config = None
      then throwIO (SyncCommandError
             (lit ''Provide repo info (owner/name or URL) to initialize sync.''))
      else
        (let repoIdentifier = resolveRepoIdentifier config in
         bindIO (if optCreate options = Some True
                 then createRepo c config
                        (case optPrivate options of Some b \<Rightarrow> b | None \<Rightarrow> True)
                 else returnIO ()) (\<lambda>u.
         bindIO (writeSyncConfig c locations config) (\<lambda>u.
         (let repoRoot = resolveRepoRoot config locations in
          bindIO (ensureRepoCloned c config repoRoot) (\<lambda>u.
          bindIO (ensureSecretsPolicy c config) (\<lambda>u.
            returnIO (joinWith [newline]
              [lit ''opencode-sync configured.'',
               lit ''Repo: '' @ repoIdentifier,
               lit ''Branch: '' @ resolveRepoBranch config None,
               lit ''Local repo: '' @ repoRoot]))))))))"

definition pull :: "'w SyncService \<Rightarrow> ('w, jstring) io" where
  "pull svc =
     (let c = svcCtx svc; locations = svcLocations svc in
      bindIO (getConfigOrThrow c locations) (\<lambda>config.
      (let repoRoot = resolveRepoRoot config locations in
       bindIO (ensureRepoCloned c config repoRoot) (\<lambda>u.
       bindIO (ensureSecretsPolicy c config) (\<lambda>u.
       bindIO (resolveBranch c config repoRoot) (\<lambda>branch.
       bindIO (hasLocalChanges c repoRoot) (\<lambda>dirty.
         if dirty
         then throwIO (SyncCommandError
                (lit ''Local sync repo has uncommitted changes. Resolve in '' @ repoRoot @
                 lit '' before pulling.''))
         else
           bindIO (fetchAndFastForward c repoRoot branch) (\<lambda>updated.
             if \<not> updated then returnIO (lit ''Already up to date.'')
             else
               bindIO (loadOverrides c locations) (\<lambda>ov.
               bindIO (planNow config locations repoRoot) (\<lambda>plan.
               bindIO (syncRepoToLocal c plan ov) (\<lambda>u.
               bindIO (nowISO c) (\<lambda>t1.
               bindIO (nowISO c) (\<lambda>t2.
               bindIO (writeState c locations (pulledState t1 t2)) (\<lambda>u.
               bindIO (showToast c (lit ''Config updated. Restart OpenCode to apply.'') Info)
                 (\<lambda>u.
               returnIO
                 (lit ''Remote config applied. Restart OpenCode to use new settings.''))))))))))))))))"

definition push :: "'w SyncService \<Rightarrow> ('w, jstring) io" where
  "push svc =
     (let c = svcCtx svc; locations = svcLocations svc in
      bindIO (getConfigOrThrow c locations) (\<lambda>config.
      (let repoRoot = resolveRepoRoot config locations in
       bindIO (ensureRepoCloned c config repoRoot) (\<lambda>u.
       bindIO (ensureSecretsPolicy c config) (\<lambda>u.
       bindIO (resolveBranch c config repoRoot) (\<lambda>branch.
       bindIO (hasLocalChanges c repoRoot) (\<lambda>preDirty.
         if preDirty
         then throwIO (SyncCommandError
                (lit ''Local sync repo has uncommitted changes. Resolve in '' @ repoRoot @
                 lit '' before pushing.''))
         else
           bindIO (loadOverrides c locations) (\<lambda>ov.
           bindIO (planNow config locations repoRoot) (\<lambda>plan.
           bindIO (syncLocalToRepo c plan ov) (\<lambda>u.
           bindIO (hasLocalChanges c repoRoot) (\<lambda>dirty.
             if \<not> dirty then returnIO (lit ''No local changes to push.'')
             else
               bindIO (generateCommitMessageNow c repoRoot) (\<lambda>message.
               bindIO (commitAll c repoRoot message) (\<lambda>u.
               bindIO (pushBranch c repoRoot branch) (\<lambda>u.
               bindIO (nowISO c) (\<lambda>t.
               bindIO (writeState c locations (pushedState t)) (\<lambda>u.
               returnIO (lit ''Pushed changes: '' @ message)))))))))))))))))"

definition enableSecrets :: "'w SyncService \<Rightarrow> jstring list option \<Rightarrow> ('w, jstring) io" where
  "enableSecrets svc extra =
     (let c = svcCtx svc; locations = svcLocations svc in
      bindIO (getConfigOrThrow c locations) (\<lambda>loaded.
      (let config = loaded\<lparr>includeSecrets := True,
                            extraSecretPaths :=
                              (case extra of Some paths \<Rightarrow> paths
                               | None \<Rightarrow> extraSecretPaths loaded)\<rparr>
       in bindIO (ensureRepoPrivate c config) (\<lambda>u.
          bindIO (writeSyncConfig c locations config) (\<lambda>u.
          returnIO (lit ''Secrets sync enabled for this repo.''))))))"

section \<open>Observing a run\<close>

text \<open>The calls a computation made: what it appended to the record of calls.\<close>

definition newEvents :: "'w sys \<Rightarrow> 'w sys \<Rightarrow> event list" where
  "newEvents s s' = drop (length (trace s)) (trace s')"

fun deletedSession :: "event \<Rightarrow> jsval option" where
  "deletedSession (SessionDelete sessionId r) = Some sessionId"
| "deletedSession e = None"

fun isSessionDelete :: "event \<Rightarrow> bool" where
  "isSessionDelete (SessionDelete sessionId r) = True"
| "isSessionDelete e = False"

text \<open>The session id a successful \<open>session.create\<close> gave, when it is truthy.\<close>

fun createdSession :: "event \<Rightarrow> jsval option" where
  "createdSession (SessionCreate title (Inr sessionResult)) =
     (if truthy (sessionIdOf sessionResult) then Some (sessionIdOf sessionResult) else None)"
| "createdSession e = None"

fun promptResponse :: "event \<Rightarrow> jsval option" where
  "promptResponse (SessionPrompt sessionId model prompt (Inr response)) = Some response"
| "promptResponse e = None"

fun configResponse :: "event \<Rightarrow> jsval option" where
  "configResponse (ConfigGet (Inr response)) = Some response"
| "configResponse e = None"

text \<open>A call that failed, in the commit message generator.\<close>

fun failedCall :: "event \<Rightarrow> bool" where
  "failedCall (GitDiffNameStatus repoDir (Inl e)) = True"
| "failedCall (GitDiffStat repoDir (Inl e)) = True"
| "failedCall (ConfigGet (Inl e)) = True"
| "failedCall (SessionCreate title (Inl e)) = True"
| "failedCall (SessionPrompt sessionId model prompt (Inl e)) = True"
| "failedCall e = False"

text \<open>The output of a git call that succeeded, and the result of a session creation.\<close>

fun diffOutput :: "event \<Rightarrow> jstring option" where
  "diffOutput (GitDiffNameStatus repoDir (Inr out)) = Some out"
| "diffOutput (GitDiffStat repoDir (Inr out)) = Some out"
| "diffOutput e = None"

fun createResult :: "event \<Rightarrow> jsval option" where
  "createResult (SessionCreate title (Inr sessionResult)) = Some sessionResult"
| "createResult e = None"

text \<open>
  A configuration response that names no model: there is no configuration, or neither
  \<open>small_model\<close> nor \<open>model\<close> has a truthy value, or the value is a string without a
  provider before the first \<open>/\<close> or without a model after it.
\<close>

definition providerPart :: "jstring \<Rightarrow> jstring" where
  "providerPart v = takeWhile (\<lambda>x. x \<noteq> 0x2F) v"

definition modelPart :: "jstring \<Rightarrow> jstring" where
  "modelPart v = takeWhile (\<lambda>x. x \<noteq> 0x2F) (drop 1 (dropWhile (\<lambda>x. x \<noteq> 0x2F) v))"

definition unresolvable :: "jsval \<Rightarrow> bool" where
  "unresolvable response =
     (let config = unwrapData response;
          v = coalesce (getProp config (lit ''small_model'')) (getProp config (lit ''model''))
      in \<not> truthy config \<or> \<not> truthy v \<or>
         (case v of JStr name \<Rightarrow> providerPart name = [] \<or> modelPart name = [] | _ \<Rightarrow> False))"

text \<open>
  The declared type of the configuration, \<open>{ small_model?: string; model?: string }\<close>: each
  of the two fields is a string when it is there.
\<close>

definition optionalString :: "jsval \<Rightarrow> bool" where
  "optionalString v = (case v of JUndefined \<Rightarrow> True | JNull \<Rightarrow> True | JStr s \<Rightarrow> True | _ \<Rightarrow> False)"

definition wellTypedConfig :: "jsval \<Rightarrow> bool" where
  "wellTypedConfig response =
     (let config = unwrapData response
      in optionalString (getProp config (lit ''small_model'')) \<and>
         optionalString (getProp config (lit ''model'')))"

text \<open>The text the generator takes from the response of the prompt.\<close>

definition textOfResponse :: "jsval \<Rightarrow> error + jstring option" where
  "textOfResponse response = extractMessage (coalesce (unwrapData response) response)"

text \<open>The message a run returns, from the responses to the prompt it received.\<close>

fun messageFrom :: "jstring \<Rightarrow> jsval list \<Rightarrow> jstring" where
  "messageFrom fallback [response] =
     (case messageOfResponse fallback response of Inl e \<Rightarrow> fallback | Inr m \<Rightarrow> m)"
| "messageFrom fallback responses = fallback"

definition expectedMessage :: "jsdate \<Rightarrow> event list \<Rightarrow> jstring" where
  "expectedMessage d evs = messageFrom (fallbackMessage d) (List.map_filter promptResponse evs)"

text \<open>The shape \<open>YYYY-MM-DD\<close>, and the number that a string of decimal digits denotes.\<close>

definition isDigit :: "16 word \<Rightarrow> bool" where
  "isDigit c = (c \<in> {0x30, 0x31, 0x32, 0x33, 0x34, 0x35, 0x36, 0x37, 0x38, 0x39})"

definition isYMD :: "jstring \<Rightarrow> bool" where
  "isYMD s =
     (case s of
        [y1, y2, y3, y4, h1, m1, m2, h2, d1, d2] \<Rightarrow>
          isDigit y1 \<and> isDigit y2 \<and> isDigit y3 \<and> isDigit y4 \<and> h1 = 0x2D \<and>
          isDigit m1 \<and> isDigit m2 \<and> h2 = 0x2D \<and> isDigit d1 \<and> isDigit d2
      | _ \<Rightarrow> False)"

definition readNat :: "jstring \<Rightarrow> nat" where
  "readNat ds = foldl (\<lambda>n c. 10 * n + (unat c - 48)) 0 ds"

subsection \<open>Calls of the sync service\<close>

text \<open>
  The calls that write: a reconciliation in either direction, a commit, a push, a write of
  the state or of the configuration, the creation of a repository.
\<close>

fun isWrite :: "event \<Rightarrow> bool" where
  "isWrite (SyncRepoToLocal plan ov r) = True"
| "isWrite (SyncLocalToRepo plan ov r) = True"
| "isWrite (CommitAll root message r) = True"
| "isWrite (PushBranch root b r) = True"
| "isWrite (WriteState locations st r) = True"
| "isWrite (WriteSyncConfig locations config r) = True"
| "isWrite (GhRepoCreate owner name private r) = True"
| "isWrite e = False"

text \<open>The same without the two calls that only \<open>init\<close> makes.\<close>

fun reconciles :: "event \<Rightarrow> bool" where
  "reconciles (SyncRepoToLocal plan ov r) = True"
| "reconciles (SyncLocalToRepo plan ov r) = True"
| "reconciles (CommitAll root message r) = True"
| "reconciles (PushBranch root b r) = True"
| "reconciles (WriteState locations st r) = True"
| "reconciles e = False"

text \<open>A run that wrote nothing: no writing call, and the documents are as before.\<close>

definition untouched :: "'w sys \<Rightarrow> 'w sys \<Rightarrow> bool" where
  "untouched s s' =
     ((\<forall>ev \<in> set (newEvents s s'). \<not> isWrite ev) \<and>
      stateFiles s' = stateFiles s \<and> configFiles s' = configFiles s)"

fun dirtyCheck :: "event \<Rightarrow> (error + bool) option" where
  "dirtyCheck (HasLocalChanges root r) = Some r"
| "dirtyCheck e = None"

fun privacyCheck :: "event \<Rightarrow> (error + bool) option" where
  "privacyCheck (RepoIsPrivate config r) = Some r"
| "privacyCheck e = None"

fun fetchOutcome :: "event \<Rightarrow> (error + bool) option" where
  "fetchOutcome (FetchAndFastForward root b r) = Some r"
| "fetchOutcome e = None"

fun stateWritten :: "event \<Rightarrow> SyncState option" where
  "stateWritten (WriteState locations st (Inr u)) = Some st"
| "stateWritten e = None"

fun toastOutcome :: "event \<Rightarrow> (error + unit) option" where
  "toastOutcome (ShowToast message v r) = Some r"
| "toastOutcome e = None"

fun firstOf :: "'a list \<Rightarrow> 'a option" where
  "firstOf [] = None"
| "firstOf (x # xs) = Some x"

text \<open>The answer to the first dirty check and to the first privacy check of a run.\<close>

definition firstDirty :: "'w sys \<Rightarrow> 'w sys \<Rightarrow> (error + bool) option" where
  "firstDirty s s' = firstOf (List.map_filter dirtyCheck (newEvents s s'))"

definition firstPrivacy :: "'w sys \<Rightarrow> 'w sys \<Rightarrow> (error + bool) option" where
  "firstPrivacy s s' = firstOf (List.map_filter privacyCheck (newEvents s s'))"

text \<open>
  The steps of a flow after its preamble, in the order of the calls; the calls of the
  preamble and of the commit message generator are no steps.
\<close>

datatype step =
  Dirty | Fetch | Overrides | RepoToLocal | LocalToRepo | Commit | Push | StateWrite | Notify

fun stepOf :: "event \<Rightarrow> step option" where
  "stepOf (HasLocalChanges root r) = Some Dirty"
| "stepOf (FetchAndFastForward root b r) = Some Fetch"
| "stepOf (LoadOverrides locations r) = Some Overrides"
| "stepOf (SyncRepoToLocal plan ov r) = Some RepoToLocal"
| "stepOf (SyncLocalToRepo plan ov r) = Some LocalToRepo"
| "stepOf (CommitAll root message r) = Some Commit"
| "stepOf (PushBranch root b r) = Some Push"
| "stepOf (WriteState locations st r) = Some StateWrite"
| "stepOf (ShowToast message v r) = Some Notify"
| "stepOf e = None"

definition steps :: "event list \<Rightarrow> step list" where
  "steps evs = List.map_filter stepOf evs"

text \<open>A step of reconciliation that threw.\<close>

fun failedStep :: "event \<Rightarrow> bool" where
  "failedStep (FetchAndFastForward root b (Inl e)) = True"
| "failedStep (SyncRepoToLocal plan ov (Inl e)) = True"
| "failedStep (SyncLocalToRepo plan ov (Inl e)) = True"
| "failedStep (CommitAll root message (Inl e)) = True"
| "failedStep (PushBranch root b (Inl e)) = True"
| "failedStep e = False"

fun succeededStep :: "event \<Rightarrow> step option" where
  "succeededStep (FetchAndFastForward root b (Inr True)) = Some Fetch"
| "succeededStep (SyncRepoToLocal plan ov (Inr u)) = Some RepoToLocal"
| "succeededStep (SyncLocalToRepo plan ov (Inr u)) = Some LocalToRepo"
| "succeededStep (CommitAll root message (Inr u)) = Some Commit"
| "succeededStep (PushBranch root b (Inr u)) = Some Push"
| "succeededStep e = None"

text \<open>The locations and the plan that a call was given.\<close>

fun locationsUsed :: "event \<Rightarrow> SyncLocations option" where
  "locationsUsed (LoadSyncConfig locations r) = Some locations"
| "locationsUsed (WriteSyncConfig locations config r) = Some locations"
| "locationsUsed (LoadState locations r) = Some locations"
| "locationsUsed (WriteState locations st r) = Some locations"
| "locationsUsed (LoadOverrides locations r) = Some locations"
| "locationsUsed e = None"

fun planUsed :: "event \<Rightarrow> SyncPlan option" where
  "planUsed (SyncRepoToLocal plan ov r) = Some plan"
| "planUsed (SyncLocalToRepo plan ov r) = Some plan"
| "planUsed e = None"

text \<open>A call that is given locations is given these; a call that is given a plan is given
  this one.\<close>

definition locationsAre :: "SyncLocations \<Rightarrow> event \<Rightarrow> bool" where
  "locationsAre locations ev = (locationsUsed ev = None \<or> locationsUsed ev = Some locations)"

definition planIs :: "SyncPlan \<Rightarrow> event \<Rightarrow> bool" where
  "planIs plan ev = (planUsed ev = None \<or> planUsed ev = Some plan)"

fun isMessageEvent :: "event \<Rightarrow> bool" where
  "isMessageEvent (GitDiffNameStatus dir r) = True"
| "isMessageEvent (GitDiffStat dir r) = True"
| "isMessageEvent (ConfigGet r) = True"
| "isMessageEvent (SessionCreate title r) = True"
| "isMessageEvent (SessionPrompt sessionId model prompt r) = True"
| "isMessageEvent (SessionDelete sessionId r) = True"
| "isMessageEvent e = False"

section \<open>Symbolic execution\<close>

text \<open>
  The answer of a capability in a state and the state after the call; \<open>wp m Q s\<close> says that
  the run of \<open>m\<close> from \<open>s\<close> ends in an outcome and a state that satisfy \<open>Q\<close>.
\<close>

definition answer :: "('w \<Rightarrow> (error + 'a) \<times> 'w) \<Rightarrow> 'w sys \<Rightarrow> error + 'a" where
  "answer port s = fst (port (world s))"

definition advance ::
  "('w \<Rightarrow> (error + 'a) \<times> 'w) \<Rightarrow> ((error + 'a) \<Rightarrow> event) \<Rightarrow> 'w sys \<Rightarrow> 'w sys" where
  "advance port ev s =
     s\<lparr>world := snd (port (world s)), trace := trace s @ [ev (fst (port (world s)))]\<rparr>"

definition wp :: "('w, 'a) io \<Rightarrow> ((error + 'a) \<Rightarrow> 'w sys \<Rightarrow> bool) \<Rightarrow> 'w sys \<Rightarrow> bool" where
  "wp m Q s = (case m s of (r, s') \<Rightarrow> Q r s')"

text \<open>The outcome and the final state of a run, and the calls of a run of the generator.\<close>

definition outcomeOf :: "('w, 'a) io \<Rightarrow> 'w sys \<Rightarrow> error + 'a" where
  "outcomeOf m s = fst (m s)"

definition stateAfter :: "('w, 'a) io \<Rightarrow> 'w sys \<Rightarrow> 'w sys" where
  "stateAfter m s = snd (m s)"

definition commitEvents :: "'w ctx \<Rightarrow> jstring \<Rightarrow> jsdate \<Rightarrow> 'w sys \<Rightarrow> event list" where
  "commitEvents c dir d s = newEvents s (stateAfter (generateCommitMessage c dir d) s)"

text \<open>
  The configuration of the test \<open>excludes secrets when includeSecrets is false\<close>: an
  extra secret path is configured and still nothing secret is planned.
\<close>

definition testLocations :: SyncLocations where
  "testLocations =
     \<lparr>configRoot = lit ''/home/test/.config/opencode'',
      dataRoot = lit ''/home/test/.local/share/opencode'',
      syncConfigPath = lit ''/home/test/.config/opencode/opencode-sync.jsonc'',
      overridesPath = lit ''/home/test/.config/opencode/opencode-sync.overrides.jsonc'',
      statePath = lit ''/home/test/.local/share/opencode/opencode-sync/state.json'',
      defaultRepoDir = lit ''/home/test/.local/share/opencode/opencode-sync/repo''\<rparr>"

definition testConfig :: "bool \<Rightarrow> SyncConfig" where
  "testConfig secrets =
     \<lparr>repo = Some \<lparr>repoOwner = Some (lit ''acme''), repoName = Some (lit ''config''),
                     repoUrl = None, repoBranch = None\<rparr>,
      includeSecrets = secrets,
      extraSecretPaths = [lit ''/home/test/.ssh/id_rsa''],
      localRepoPath = None\<rparr>"

section \<open>A simulated world\<close>

text \<open>
  A small outside world to run the flows in: a remote that is private or not and ahead or
  not, a working tree that is dirty or not, local edits that wait to be copied to the
  clone, and a language model with a fixed reply.
\<close>

record simWorld =
  remotePrivate :: bool
  remoteAhead :: bool
  treeDirty :: bool
  localEdits :: bool
  modelReply :: "error + jsval"
  deleteFails :: bool

definition testDate :: jsdate where
  "testDate = \<lparr>getFullYear = Whole 2026, getMonth = Whole 10, getDate = Whole 3,
                toISOString = lit ''2026-11-03T06:34:00.000Z''\<rparr>"

definition simCtx :: "simWorld ctx" where
  "simCtx =
     \<lparr>isRepoCloned_p = (\<lambda>root w. (Inr True, w)),
      ensureRepoCloned_p = (\<lambda>config root w. (Inr (), w)),
      repoIsPrivate_p = (\<lambda>config w. (Inr (remotePrivate w), w)),
      getRepoStatus_p = (\<lambda>root w. (Inr \<lparr>statusBranch = lit ''main'', statusChanges = []\<rparr>, w)),
      hasLocalChanges_p = (\<lambda>root w. (Inr (treeDirty w), w)),
      fetchAndFastForward_p = (\<lambda>root b w. (Inr (remoteAhead w), w\<lparr>remoteAhead := False\<rparr>)),
      commitAll_p = (\<lambda>root message w. (Inr (), w\<lparr>treeDirty := False\<rparr>)),
      pushBranch_p = (\<lambda>root b w. (Inr (), w)),
      syncRepoToLocal_p = (\<lambda>plan ov w. (Inr (), w\<lparr>localEdits := False\<rparr>)),
      syncLocalToRepo_p =
        (\<lambda>plan ov w. (Inr (), w\<lparr>treeDirty := treeDirty w \<or> localEdits w, localEdits := False\<rparr>)),
      fileFault_p = (\<lambda>op w. (Inr (), w)),
      ghRepoCreate_p = (\<lambda>owner name private w. (Inr (), w\<lparr>remotePrivate := private\<rparr>)),
      showToast_p = (\<lambda>message v w. (Inr (), w)),
      newDate_p = (\<lambda>w. (testDate, w)),
      gitDiffNameStatus_p = (\<lambda>dir w. (Inr (lit ''M opencode.json''), w)),
      gitDiffStat_p = (\<lambda>dir w. (Inr (lit '' opencode.json | 2 +-''), w)),
      configGet_p =
        (\<lambda>w. (Inr (JObj [(lit ''data'',
                    JObj [(lit ''small_model'', JStr (lit ''anthropic/claude-haiku''))])]), w)),
      sessionCreate_p =
        (\<lambda>title w. (Inr (JObj [(lit ''data'', JObj [(lit ''id'', JStr (lit ''ses_1''))])]), w)),
      sessionPrompt_p = (\<lambda>sessionId model prompt w. (modelReply w, w)),
      sessionDelete_p =
        (\<lambda>sessionId w. (if deleteFails w then Inl (Thrown (lit ''gone'')) else Inr (), w))\<rparr>"

text \<open>A reply of the model with one text part.\<close>

definition textReply :: "jstring \<Rightarrow> jsval" where
  "textReply t =
     JObj [(lit ''data'',
       JObj [(lit ''parts'', JArr [JObj [(lit ''type'', JStr (lit ''text'')), (lit ''text'', JStr t)]])])]"

definition simWorld0 :: simWorld where
  "simWorld0 =
     \<lparr>remotePrivate = True, remoteAhead = False, treeDirty = False, localEdits = False,
      modelReply = Inr (textReply (lit '' \"Update opencode config\" '')), deleteFails = False\<rparr>"

definition simSys :: "simWorld \<Rightarrow> simWorld sys" where
  "simSys w =
     \<lparr>world = w, trace = [], procEnv = [(lit ''HOME'', lit ''/home/test'')],
      procPlatform = Linux, configFiles = Map.empty, stateFiles = Map.empty,
      overridesFiles = Map.empty\<rparr>"

text \<open>The calls of the commit message generator in the simulated world, when all succeed
  up to the prompt.\<close>

definition simConfigResponse :: jsval where
  "simConfigResponse =
     JObj [(lit ''data'', JObj [(lit ''small_model'', JStr (lit ''anthropic/claude-haiku''))])]"

definition simSessionResult :: jsval where
  "simSessionResult = JObj [(lit ''data'', JObj [(lit ''id'', JStr (lit ''ses_1''))])]"

definition commitTrace :: "jstring \<Rightarrow> (error + jsval) \<Rightarrow> (error + unit) \<Rightarrow> event list" where
  "commitTrace dir reply deleted =
     [GitDiffNameStatus dir (Inr (lit ''M opencode.json'')),
      GitDiffStat dir (Inr (lit '' opencode.json | 2 +-'')),
      ConfigGet (Inr simConfigResponse),
      SessionCreate (lit ''opencode-sync'') (Inr simSessionResult),
      SessionPrompt (JStr (lit ''ses_1''))
        \<lparr>providerID = lit ''anthropic'', modelID = lit ''claude-haiku''\<rparr>
        (commitPrompt (summaryText (lit ''M opencode.json'') (lit '' opencode.json | 2 +-'')))
        reply,
      SessionDelete (JStr (lit ''ses_1'')) deleted]"


text \<open>A reply whose \<open>parts\<close> is not an array: the generator cannot use it.\<close>

definition brokenReply :: jsval where
  "brokenReply = JObj [(lit ''data'', JObj [(lit ''parts'', JStr (lit ''none''))])]"

text \<open>
  A client whose configuration gives a number for \<open>model\<close>, and a date of the year 800.
\<close>

definition mistypedCtx :: "simWorld ctx" where
  "mistypedCtx =
     simCtx\<lparr>configGet_p :=
       (\<lambda>w. (Inr (JObj [(lit ''data'', JObj [(lit ''model'', JNum 5)])]), w))\<rparr>"

definition earlyDate :: jsdate where
  "earlyDate = \<lparr>getFullYear = Whole 800, getMonth = Whole 11, getDate = Whole 25,
                 toISOString = lit ''0800-12-25T00:00:00.000Z''\<rparr>"

text \<open>The service of the simulated world, and a state that holds a configuration.\<close>

definition simSvc :: "simWorld SyncService" where
  "simSvc = createSyncService simCtx (simSys simWorld0)"

definition simSysWith :: "simWorld \<Rightarrow> SyncConfig \<Rightarrow> simWorld sys" where
  "simSysWith w config =
     (simSys w)\<lparr>configFiles := [syncConfigPath (svcLocations simSvc) \<mapsto> config]\<rparr>"

text \<open>A configured machine whose clone has uncommitted changes.\<close>

definition dirtySys :: "simWorld sys" where
  "dirtySys = simSysWith (simWorld0\<lparr>treeDirty := True\<rparr>) (testConfig False)"




text \<open>Configured machines: one whose remote is ahead, one with local edits to push.\<close>

definition aheadSys :: "simWorld sys" where
  "aheadSys = simSysWith (simWorld0\<lparr>remoteAhead := True\<rparr>) (testConfig False)"

definition editedSys :: "simWorld sys" where
  "editedSys = simSysWith (simWorld0\<lparr>localEdits := True\<rparr>) (testConfig False)"

text \<open>A context whose push is rejected, and one whose reconciliation to local fails.\<close>

definition rejectingCtx :: "simWorld ctx" where
  "rejectingCtx = simCtx\<lparr>pushBranch_p := (\<lambda>root b w. (Inl (Thrown (lit ''rejected'')), w))\<rparr>"

definition failingCtx :: "simWorld ctx" where
  "failingCtx = simCtx\<lparr>syncRepoToLocal_p := (\<lambda>plan ov w. (Inl (Thrown (lit ''EACCES'')), w))\<rparr>"

text \<open>A service whose client rejects every notification.\<close>

definition mutedCtx :: "simWorld ctx" where
  "mutedCtx = simCtx\<lparr>showToast_p := (\<lambda>message v w. (Inl (Thrown (lit ''tui down'')), w))\<rparr>"

definition mutedSvc :: "simWorld SyncService" where
  "mutedSvc = simSvc\<lparr>svcCtx := mutedCtx\<rparr>"

text \<open>A persisted state with all three fields, and a machine that holds it.\<close>

definition earlierState :: SyncState where
  "earlierState =
     \<lparr>lastPull = Some (lit ''2026-10-01T08:00:00.000Z''),
      lastPush = Some (lit ''2026-10-02T09:00:00.000Z''),
      lastRemoteUpdate = Some (lit ''2026-10-01T08:00:00.000Z'')\<rparr>"

definition withState :: "simWorld sys \<Rightarrow> simWorld sys" where
  "withState s = s\<lparr>stateFiles := [statePath (svcLocations simSvc) \<mapsto> earlierState]\<rparr>"

text \<open>
  The machine after \<open>OPENCODE_CONFIG_DIR\<close> was set in the environment of the process,
  with the configuration at its old place.
\<close>

definition movedSys :: "simWorld sys" where
  "movedSys =
     (simSysWith simWorld0 (testConfig False))
       \<lparr>procEnv := [(lit ''OPENCODE_CONFIG_DIR'', lit ''/srv/opencode''),
                    (lit ''HOME'', lit ''/home/test'')]\<rparr>"

section \<open>Properties of the sync planner\<close>

lemma regular_items_not_secret:
  "filter isSecret (map (catalogItem p root False) ns) = []"
  by (induction ns) (simp_all add: catalogItem_def)

text \<open>
  Claim C1.  With \<open>includeSecrets = false\<close> the plan has no item with
  \<open>isSecret = true\<close> and an empty allowlist, whatever \<open>extraSecretPaths\<close> holds; hence a
  secret item or an allowlist entry can only be there when \<open>includeSecrets\<close> is true.
\<close>

theorem buildSyncPlan_secrets_gate:
  "(\<not> includeSecrets config \<longrightarrow>
      filter isSecret (items (buildSyncPlan config locations repoRoot p)) = [] \<and>
      allowlist (extraSecrets (buildSyncPlan config locations repoRoot p)) = []) \<and>
   ((filter isSecret (items (buildSyncPlan config locations repoRoot p)) \<noteq> [] \<or>
     allowlist (extraSecrets (buildSyncPlan config locations repoRoot p)) \<noteq> [])
      \<longrightarrow> includeSecrets config)"
  by (simp add: buildSyncPlan_def regular_items_not_secret)

theorem buildSyncPlan_secrets_gate_witness:
  "\<not> includeSecrets (testConfig False) \<and>
   extraSecretPaths (testConfig False) \<noteq> [] \<and>
   filter isSecret (items (buildSyncPlan (testConfig False) testLocations (lit ''/repo'') Linux)) = [] \<and>
   allowlist (extraSecrets (buildSyncPlan (testConfig False) testLocations (lit ''/repo'') Linux)) = [] \<and>
   length (filter isSecret (items (buildSyncPlan (testConfig True) testLocations (lit ''/repo'') Linux))) = 2 \<and>
   length (allowlist (extraSecrets (buildSyncPlan (testConfig True) testLocations (lit ''/repo'') Linux))) = 1 \<and>
   includeSecrets (testConfig True)"
  using buildSyncPlan_secrets_gate [of "testConfig False" testLocations "lit ''/repo''" Linux]
        buildSyncPlan_secrets_gate [of "testConfig True" testLocations "lit ''/repo''" Linux]
  by (simp add: testConfig_def buildSyncPlan_def regular_items_not_secret secretNames_def
        catalogItem_def)

section \<open>Properties of the commit message generator\<close>

subsection \<open>Sanitising\<close>




lemma splitOn_nonempty: "splitOn c xs \<noteq> []"
  by (induction xs) (auto split: list.splits)

lemma firstSegment_splitOn: "firstSegment (splitOn c xs) = takeWhile (\<lambda>x. x \<noteq> c) xs"
  by (induction xs) (auto simp: firstSegment_def split: list.splits)

lemma dropWhile_snoc_keep: "\<not> P x \<Longrightarrow> \<exists>zs. dropWhile P (ys @ [x]) = zs @ [x]"
  by (induction ys) auto

lemma trim_head_not_white: "trim s \<noteq> [] \<Longrightarrow> \<not> isWhite (hd (trim s))"
proof -
  assume ne: "trim s \<noteq> []"
  define t where "t = dropWhile isWhite s"
  have tne: "t \<noteq> []"
  proof
    assume "t = []"
    then have "trim s = []" by (simp add: trim_def t_def [symmetric])
    with ne show False by simp
  qed
  then obtain x xs where t: "t = x # xs" by (cases t) auto
  have h: "\<not> isWhite x" using hd_dropWhile [of isWhite s] tne t unfolding t_def by simp
  obtain zs where "dropWhile isWhite (rev xs @ [x]) = zs @ [x]"
    using dropWhile_snoc_keep [of isWhite x "rev xs"] h by blast
  then have "trim s = x # rev zs" by (simp add: trim_def t_def [symmetric] t)
  then show ?thesis using h by simp
qed

lemma trim_take_nonempty:
  assumes "trim s \<noteq> []" "0 < n"
  shows "trim (take n (trim s)) \<noteq> []"
proof -
  let ?t = "trim s"
  have h: "\<not> isWhite (hd ?t)" using assms(1) by (rule trim_head_not_white)
  have tk: "take n ?t = hd ?t # take (n - 1) (tl ?t)"
    using assms by (cases ?t; cases n) auto
  have "dropWhile isWhite (take n ?t) = take n ?t" using h tk by simp
  moreover have "dropWhile isWhite (rev (take n ?t)) \<noteq> []"
  proof
    assume "dropWhile isWhite (rev (take n ?t)) = []"
    then have "\<forall>x \<in> set (rev (take n ?t)). isWhite x" by (simp add: dropWhile_eq_Nil_conv)
    then show False using h tk by simp
  qed
  ultimately show ?thesis by (simp add: trim_def)
qed

lemma sanitizeMessage_first_line:
  "sanitizeMessage message =
     (let t = trim (stripQuotes (trim (takeWhile (\<lambda>x. x \<noteq> newline) message)))
      in if length t \<le> 72 then t else trim (take 72 t))"
  by (auto simp: sanitizeMessage_def firstSegment_splitOn Let_def)



lemma sanitizeMessage_long_nonempty:
  assumes "72 < length (trim (stripQuotes (trim (takeWhile (\<lambda>x. x \<noteq> newline) message))))"
  shows "sanitizeMessage message \<noteq> []"
proof -
  let ?u = "stripQuotes (trim (takeWhile (\<lambda>x. x \<noteq> newline) message))"
  have "trim ?u \<noteq> []" using assms by auto
  then have "trim (take 72 (trim ?u)) \<noteq> []" by (rule trim_take_nonempty) simp
  then show ?thesis using assms by (simp add: sanitizeMessage_first_line Let_def)
qed

subsection \<open>Runs\<close>

declare showNat.simps [simp del]

lemma wp_returnIO: "wp (returnIO x) Q s = Q (Inr x) s"
  by (simp add: wp_def returnIO_def)

lemma wp_throwIO: "wp (throwIO e) Q s = Q (Inl e) s"
  by (simp add: wp_def throwIO_def)

lemma wp_bindIO:
  "wp (bindIO m f) Q s =
     wp m (\<lambda>r s'. case r of Inl e \<Rightarrow> Q (Inl e) s' | Inr x \<Rightarrow> wp (f x) Q s') s"
  by (simp add: wp_def bindIO_def split: prod.split sum.split)

lemma wp_catchIO:
  "wp (catchIO m h) Q s =
     wp m (\<lambda>r s'. case r of Inl e \<Rightarrow> wp (h e) Q s' | Inr x \<Rightarrow> Q (Inr x) s') s"
  by (simp add: wp_def catchIO_def split: prod.split sum.split)

lemma wp_attempt: "wp (attempt m) Q s = wp m (\<lambda>r s'. Q (Inr r) s') s"
  by (simp add: wp_def attempt_def split: prod.split)

lemma wp_perform: "wp (perform port ev) Q s = Q (answer port s) (advance port ev s)"
  by (simp add: wp_def perform_def answer_def advance_def split: prod.split)

lemma wp_if: "wp (if b then m1 else m2) Q s = (if b then wp m1 Q s else wp m2 Q s)"
  by simp

lemma wp_case_option:
  "wp (case x of None \<Rightarrow> m1 | Some y \<Rightarrow> m2 y) Q s =
     (case x of None \<Rightarrow> wp m1 Q s | Some y \<Rightarrow> wp (m2 y) Q s)"
  by (simp split: option.split)

lemma wp_case_sum:
  "wp (case x of Inl e \<Rightarrow> m1 e | Inr y \<Rightarrow> m2 y) Q s =
     (case x of Inl e \<Rightarrow> wp (m1 e) Q s | Inr y \<Rightarrow> wp (m2 y) Q s)"
  by (simp split: sum.split)

lemma wp_case_prod:
  "wp (case x of (a, b) \<Rightarrow> m a b) Q s = (case x of (a, b) \<Rightarrow> wp (m a b) Q s)"
  by (simp split: prod.split)

lemma wp_Let: "wp (Let x m) Q s = wp (m x) Q s"
  by simp

lemmas wp_rules = wp_returnIO wp_throwIO wp_bindIO wp_catchIO wp_attempt wp_perform wp_if
  wp_case_option wp_case_sum wp_case_prod wp_Let

lemma wpD: "wp m Q s \<Longrightarrow> m s = (r, s') \<Longrightarrow> Q r s'"
  by (simp add: wp_def)

lemma trace_advance: "trace (advance port ev s) = trace s @ [ev (answer port s)]"
  by (simp add: advance_def answer_def)

lemma frame_advance:
  "configFiles (advance port ev s) = configFiles s"
  "stateFiles (advance port ev s) = stateFiles s"
  "overridesFiles (advance port ev s) = overridesFiles s"
  "procEnv (advance port ev s) = procEnv s"
  "procPlatform (advance port ev s) = procPlatform s"
  by (simp_all add: advance_def)

lemmas run_simps = wp_rules newEvents_def trace_advance frame_advance List.map_filter_simps

lemmas commit_defs = generateCommitMessage_def getDiffSummary_def resolveSmallModel_def
  promptSession_def releaseSession_def

lemma gcm_cleanup:
  "wp (generateCommitMessage c repoDir d)
     (\<lambda>r s'. List.map_filter deletedSession (newEvents s s') =
               List.map_filter createdSession (newEvents s s') \<and>
             (List.map_filter createdSession (newEvents s s') \<noteq> [] \<longrightarrow>
                isSessionDelete (last (newEvents s s')) \<and> (\<exists>m. r = Inr m))) s"
  unfolding commit_defs
  by (simp add: run_simps split: sum.split option.split)

lemma modelOfValue_typed:
  "optionalString a \<Longrightarrow> optionalString b \<Longrightarrow> \<exists>m. modelOfValue (coalesce a b) = Inr m"
  by (cases a; cases b)
     (auto simp: optionalString_def coalesce_def nullish_def modelOfValue_def split: list.splits)

lemma resolve_typed:
  assumes "wellTypedConfig response"
  shows "modelOfValue (coalesce (getProp (unwrapData response) (lit ''small_model''))
            (getProp (unwrapData response) (lit ''model''))) \<noteq> Inl e"
  using modelOfValue_typed [of "getProp (unwrapData response) (lit ''small_model'')"
      "getProp (unwrapData response) (lit ''model'')"] assms
  by (auto simp: wellTypedConfig_def Let_def)

lemma gcm_result:
  "wp (generateCommitMessage c repoDir d)
     (\<lambda>r s'. (\<forall>response \<in> set (List.map_filter configResponse (newEvents s s')).
                wellTypedConfig response) \<longrightarrow>
             r = Inr (expectedMessage d (newEvents s s'))) s"
  unfolding commit_defs
  apply (simp add: run_simps expectedMessage_def resolve_typed split: sum.split option.split)
  apply (auto simp: resolve_typed)
  done

lemma gcm_failed:
  "wp (generateCommitMessage c repoDir d)
     (\<lambda>r s'. (\<exists>ev \<in> set (newEvents s s'). failedCall ev) \<longrightarrow>
             List.map_filter promptResponse (newEvents s s') = []) s"
  unfolding commit_defs
  by (auto simp: run_simps split: sum.split option.split)


lemma messageFrom_cases:
  "messageFrom fb rs = fb \<or>
   (\<exists>response t. rs = [response] \<and> textOfResponse response = Inr (Some t) \<and> t \<noteq> [] \<and>
      sanitizeMessage t \<noteq> [] \<and> messageFrom fb rs = sanitizeMessage t)"
  by (cases "(fb, rs)" rule: messageFrom.cases)
     (auto simp: messageOfResponse_def textOfResponse_def Let_def split: sum.splits option.splits)

lemma showNat_1: "n < 10 \<Longrightarrow> showNat n = [digit n]"
  by (simp add: showNat.simps)

lemma showNat_2: "10 \<le> n \<Longrightarrow> n < 100 \<Longrightarrow> showNat n = [digit (n div 10), digit (n mod 10)]"
  by (subst showNat.simps) (simp add: showNat_1)

lemma showNat_3:
  "100 \<le> n \<Longrightarrow> n < 1000 \<Longrightarrow>
   showNat n = [digit (n div 100), digit (n div 10 mod 10), digit (n mod 10)]"
  by (subst showNat.simps) (simp add: showNat_2 div_mult2_eq [symmetric])

lemma showNat_4:
  "1000 \<le> n \<Longrightarrow> n < 10000 \<Longrightarrow>
   showNat n = [digit (n div 1000), digit (n div 100 mod 10), digit (n div 10 mod 10), digit (n mod 10)]"
  by (subst showNat.simps) (simp add: showNat_3 div_mult2_eq [symmetric])

lemma isDigit_digit: "k < 10 \<Longrightarrow> isDigit (digit k)"
proof -
  assume "k < 10"
  then have "k \<in> {0, 1, 2, 3, 4, 5, 6, 7, 8, 9}" by auto
  then show ?thesis by (auto simp: isDigit_def digit_def)
qed

lemma pad_two: "n < 100 \<Longrightarrow> padStart2 (showNat n) = [digit (n div 10), digit (n mod 10)]"
proof (cases "n < 10")
  case True
  then show ?thesis by (simp add: showNat_1 padStart2_def)
next
  case False
  assume "n < 100"
  with False show ?thesis by (simp add: showNat_2 padStart2_def)
qed

lemma unat_digit: "k < 10 \<Longrightarrow> unat (digit k) = 48 + k"
proof -
  assume k: "k < 10"
  have "unat (word_of_nat (48 + k) :: 16 word) = (48 + k) mod 2 ^ LENGTH(16)"
    by (rule unat_of_nat)
  also have "\<dots> = 48 + k" using k by simp
  finally show ?thesis unfolding digit_def .
qed

lemma readNat_2: "a < 10 \<Longrightarrow> b < 10 \<Longrightarrow> readNat [digit a, digit b] = 10 * a + b"
  by (simp add: readNat_def unat_digit)

lemma readNat_4:
  "a < 10 \<Longrightarrow> b < 10 \<Longrightarrow> e < 10 \<Longrightarrow> f < 10 \<Longrightarrow>
   readNat [digit a, digit b, digit e, digit f] = 1000 * a + 100 * b + 10 * e + f"
  by (simp add: readNat_def unat_digit)

lemma splitOn_unfold:
  "splitOn c xs =
     takeWhile (\<lambda>x. x \<noteq> c) xs #
       (case dropWhile (\<lambda>x. x \<noteq> c) xs of [] \<Rightarrow> [] | y # rest \<Rightarrow> splitOn c rest)"
  by (induction xs) (auto split: list.splits)

lemma take2_splitOn:
  "take 2 (splitOn c xs) =
     (if dropWhile (\<lambda>x. x \<noteq> c) xs = [] then [takeWhile (\<lambda>x. x \<noteq> c) xs]
      else [takeWhile (\<lambda>x. x \<noteq> c) xs,
            takeWhile (\<lambda>x. x \<noteq> c) (drop 1 (dropWhile (\<lambda>x. x \<noteq> c) xs))])"
proof (cases "dropWhile (\<lambda>x. x \<noteq> c) xs")
  case Nil
  have "splitOn c xs = [takeWhile (\<lambda>x. x \<noteq> c) xs]"
    by (subst splitOn_unfold) (simp add: Nil)
  then show ?thesis using Nil by simp
next
  case (Cons y rest)
  have "splitOn c xs = takeWhile (\<lambda>x. x \<noteq> c) xs # splitOn c rest"
    by (subst splitOn_unfold) (simp add: Cons)
  also have "splitOn c rest = takeWhile (\<lambda>x. x \<noteq> c) rest #
      (case dropWhile (\<lambda>x. x \<noteq> c) rest of [] \<Rightarrow> [] | y # rest' \<Rightarrow> splitOn c rest')"
    by (rule splitOn_unfold)
  finally show ?thesis using Cons by (simp add: numeral_2_eq_2)
qed

lemma modelOfValue_string:
  "modelOfValue (JStr name) =
     (if providerPart name = [] \<or> modelPart name = [] then Inr None
      else Inr (Some \<lparr>providerID = providerPart name, modelID = modelPart name\<rparr>))"
proof (cases "name = []")
  case True
  then show ?thesis by (simp add: modelOfValue_def providerPart_def)
next
  case False
  then have m: "modelOfValue (JStr name) =
      (case take 2 (splitOn (0x2F :: 16 word) name) of
         [p, m] \<Rightarrow> if p = [] \<or> m = [] then Inr None
                   else Inr (Some \<lparr>providerID = p, modelID = m\<rparr>)
       | _ \<Rightarrow> Inr None)"
    by (simp add: modelOfValue_def)
  show ?thesis
  proof (cases "dropWhile (\<lambda>x. x \<noteq> (0x2F :: 16 word)) name = []")
    case True
    show ?thesis
      unfolding m take2_splitOn providerPart_def modelPart_def True by simp
  next
    case False
    then show ?thesis
      unfolding m take2_splitOn providerPart_def modelPart_def by auto
  qed
qed

lemma modelOfValue_Some:
  assumes "modelOfValue v = Inr (Some m)"
  shows "truthy v \<and> (\<exists>name. v = JStr name \<and> providerPart name \<noteq> [] \<and> modelPart name \<noteq> [])"
proof (cases v)
  case (JStr name)
  with assms show ?thesis
    by (cases "providerPart name = [] \<or> modelPart name = []")
       (auto simp: modelOfValue_string providerPart_def)
qed (use assms in \<open>auto simp: modelOfValue_def notAFunction_def split: if_splits\<close>)

lemma resolvable:
  assumes "modelOfValue (coalesce (getProp (unwrapData response) (lit ''small_model''))
             (getProp (unwrapData response) (lit ''model''))) = Inr (Some m)"
    and "truthy (unwrapData response)"
  shows "\<not> unresolvable response"
  using modelOfValue_Some [OF assms(1)] assms(2) by (auto simp: unresolvable_def Let_def)

lemma gcm_no_summary:
  "wp (generateCommitMessage c repoDir d)
     (\<lambda>r s'. (\<forall>out \<in> set (List.map_filter diffOutput (newEvents s s')). trim out = []) \<longrightarrow>
             List.map_filter promptResponse (newEvents s s') = []) s"
  unfolding commit_defs
  by (auto simp: run_simps summaryText_def split: sum.split option.split)

lemma gcm_no_session:
  "wp (generateCommitMessage c repoDir d)
     (\<lambda>r s'. (\<exists>created \<in> set (List.map_filter createResult (newEvents s s')).
                \<not> truthy (sessionIdOf created)) \<longrightarrow>
             List.map_filter promptResponse (newEvents s s') = []) s"
  unfolding commit_defs
  by (auto simp: run_simps split: sum.split option.split)

lemma formatDate_digits:
  assumes "getFullYear d = Whole y" "getMonth d = Whole mo" "getDate d = Whole da"
    and "1000 \<le> y" "y \<le> 9999" "0 \<le> mo" "mo \<le> 11" "1 \<le> da" "da \<le> 31"
  shows "isYMD (formatDate d) \<and>
         int (readNat (take 4 (formatDate d))) = y \<and>
         int (readNat (take 2 (drop 5 (formatDate d)))) = mo + 1 \<and>
         int (readNat (drop 8 (formatDate d))) = da"
proof -
  define Y where "Y = nat y"
  define M where "M = nat (mo + 1)"
  define D where "D = nat da"
  have bounds: "1000 \<le> Y" "Y < 10000" "M < 100" "D < 100"
    using assms by (simp_all add: Y_def M_def D_def)
  have f: "formatDate d =
      [digit (Y div 1000), digit (Y div 100 mod 10), digit (Y div 10 mod 10), digit (Y mod 10),
       0x2D, digit (M div 10), digit (M mod 10), 0x2D, digit (D div 10), digit (D mod 10)]"
    using assms bounds
    by (simp add: formatDate_def stringOfNumber_def plusOne_def showNat_4 pad_two lit_def
          Y_def [symmetric] M_def [symmetric] D_def [symmetric])
  have small: "Y div 1000 < 10" "Y div 100 mod 10 < 10" "Y div 10 mod 10 < 10" "Y mod 10 < 10"
    "M div 10 < 10" "M mod 10 < 10" "D div 10 < 10" "D mod 10 < 10"
    using bounds by simp_all
  have a: "Y div 100 = Y div 10 div 10" "Y div 1000 = Y div 10 div 10 div 10"
    by (simp_all add: div_mult2_eq [symmetric])
  have "10 * (10 * (10 * (Y div 10 div 10 div 10) + Y div 10 div 10 mod 10) + Y div 10 mod 10) +
      Y mod 10 = Y"
    by (simp only: mult_div_mod_eq)
  then have y: "1000 * (Y div 1000) + 100 * (Y div 100 mod 10) + 10 * (Y div 10 mod 10) + Y mod 10 = Y"
    unfolding a by (simp only: distrib_left mult.assoc [symmetric] add.assoc)
  have "isYMD (formatDate d)"
    using small by (simp add: f isYMD_def isDigit_digit)
  moreover have "int (readNat (take 4 (formatDate d))) = y"
    using small assms y by (simp add: f readNat_4 Y_def)
  moreover have "int (readNat (take 2 (drop 5 (formatDate d)))) = mo + 1"
    using small assms by (simp add: f readNat_2 M_def)
  moreover have "int (readNat (drop 8 (formatDate d))) = da"
    using small assms by (simp add: f readNat_2 D_def)
  ultimately show ?thesis by simp
qed


lemma gcm_no_model:
  "wp (generateCommitMessage c repoDir d)
     (\<lambda>r s'. (\<exists>response \<in> set (List.map_filter configResponse (newEvents s s')).
                unresolvable response) \<longrightarrow>
             List.map_filter promptResponse (newEvents s s') = []) s"
  unfolding commit_defs
  apply (simp add: run_simps split: sum.split option.split)
  apply (auto simp: resolvable)
  done

subsection \<open>Runs in the simulated world, and the claims\<close>

lemmas io_defs = bindIO_def catchIO_def returnIO_def throwIO_def attempt_def perform_def

lemmas sim_defs = simCtx_def simSys_def simWorld0_def textReply_def commitTrace_def
  simConfigResponse_def simSessionResult_def

lemmas js_defs = unwrapData_def coalesce_def nullish_def optProp_def modelOfValue_def
  sessionIdOf_def messageOfResponse_def extractMessage_def sanitizeMessage_def firstSegment_def
  stripQuotes_def isQuote_def newline_def trim_def isWhite_def summaryText_def lit_def

lemma sim_commit_run:
  "generateCommitMessage simCtx dir testDate (simSys (simWorld0\<lparr>modelReply := reply, deleteFails := f\<rparr>)) =
     (Inr (case reply of Inl e \<Rightarrow> fallbackMessage testDate
           | Inr response \<Rightarrow> messageFrom (fallbackMessage testDate) [response]),
      (simSys (simWorld0\<lparr>modelReply := reply, deleteFails := f\<rparr>))
        \<lparr>trace := commitTrace dir reply (if f then Inl (Thrown (lit ''gone'')) else Inr ())\<rparr>)"
  by (cases reply)
     (simp_all add: commit_defs io_defs sim_defs Let_def js_defs)


lemma fallback_testDate: "fallbackMessage testDate = lit ''Sync OpenCode config (2026-11-03)''"
  by (simp add: fallbackMessage_def formatDate_def testDate_def stringOfNumber_def plusOne_def
        showNat.simps padStart2_def digit_def lit_def)

lemma fst_bindIO_cong:
  "(\<And>x s1. fst (f x s1) = fst (g x s1)) \<Longrightarrow> fst (bindIO m f s) = fst (bindIO m g s)"
  by (simp add: bindIO_def split: prod.split sum.split)

lemma fst_release: "fst (bindIO (releaseSession c sessionId) (\<lambda>u. returnIO x) s) = Inr x"
  by (simp add: releaseSession_def io_defs split: prod.split sum.split)

lemma gcm_delete_independent:
  "fst (generateCommitMessage (c\<lparr>sessionDelete_p := del\<rparr>) repoDir d s) =
   fst (generateCommitMessage c repoDir d s)"
proof -
  have g: "getDiffSummary (c\<lparr>sessionDelete_p := del\<rparr>) = getDiffSummary c"
    by (simp add: getDiffSummary_def fun_eq_iff)
  have r: "resolveSmallModel (c\<lparr>sessionDelete_p := del\<rparr>) = resolveSmallModel c"
    by (simp add: resolveSmallModel_def)
  have p: "promptSession (c\<lparr>sessionDelete_p := del\<rparr>) = promptSession c"
    by (auto simp: fun_eq_iff promptSession_def io_defs Let_def split: sum.split prod.split)
  show ?thesis
    unfolding generateCommitMessage_def g r p Let_def
    apply (rule fst_bindIO_cong)
    apply (simp split: option.split)
    apply (intro conjI impI allI)
    apply (rule fst_bindIO_cong)
    apply (simp split: option.split)
    apply (intro conjI impI allI)
    apply (rule fst_bindIO_cong)
    apply (simp add: fst_release split: prod.split)
    done
qed


lemma newEvents_simSys: "newEvents (simSys w) ((simSys w)\<lparr>trace := evs\<rparr>) = evs"
  by (simp add: newEvents_def simSys_def)




text \<open>
  Claim C7, as the code has it.  \<open>split\<close> is called on the model name outside every \<open>try\<close>:
  when the configuration gives a number for \<open>model\<close>, against its declared type,
  \<open>generateCommitMessage\<close> throws.  The year of the date is written with the digits it has:
  for a date of the year 800 the fallback is \<open>Sync OpenCode config (800-12-25)\<close>.
\<close>

theorem generateCommitMessage_raises:
  "fst (generateCommitMessage mistypedCtx (lit ''/repo'') testDate (simSys simWorld0)) =
     Inl (TypeError (lit ''modelValue.split is not a function'')) \<and>
   fst (generateCommitMessage simCtx (lit ''/repo'') earlyDate
          (simSys (simWorld0\<lparr>modelReply := Inl (Thrown (lit ''timeout''))\<rparr>))) =
     Inr (lit ''Sync OpenCode config (800-12-25)'') \<and>
   \<not> isYMD (formatDate earlyDate)"
proof -
  have "fst (generateCommitMessage mistypedCtx (lit ''/repo'') testDate (simSys simWorld0)) =
      Inl (TypeError (lit ''modelValue.split is not a function''))"
    by (simp add: mistypedCtx_def commit_defs io_defs sim_defs Let_def js_defs notAFunction_def)
  moreover have early: "formatDate earlyDate = lit ''800-12-25''"
    by (simp add: formatDate_def earlyDate_def stringOfNumber_def plusOne_def showNat.simps
          padStart2_def digit_def lit_def)
  moreover have "fst (generateCommitMessage simCtx (lit ''/repo'') earlyDate
          (simSys (simWorld0\<lparr>modelReply := Inl (Thrown (lit ''timeout''))\<rparr>))) =
      Inr (lit ''Sync OpenCode config ('' @ formatDate earlyDate @ lit '')'')"
    by (simp add: commit_defs io_defs sim_defs Let_def js_defs fallbackMessage_def)
  moreover have "\<not> isYMD (lit ''800-12-25'')"
    by (simp add: isYMD_def lit_def)
  ultimately show ?thesis by (simp add: lit_def)
qed

text \<open>
  Claim C7, amended.  When every configuration response has the declared type,
  \<open>generateCommitMessage\<close> returns a message and does not throw.  The message is the
  fallback when a call of git, of the configuration, of the session creation or of the
  prompt fails, when the diff summary is empty, when the configuration names no model,
  when the session has no id, and when the response has no text or a text that sanitises
  to the empty string; any other message is the sanitised text of the response.  The
  fallback is \<open>Sync OpenCode config (<date>)\<close>; for a valid date whose year has four digits
  the date is \<open>YYYY-MM-DD\<close>: the year, the month counted from one and the day of the
  month, the last two with two digits.
\<close>

theorem generateCommitMessage_total:
  assumes "generateCommitMessage c repoDir d s = (r, s')"
    and "\<forall>response \<in> set (List.map_filter configResponse (newEvents s s')).
           wellTypedConfig response"
  shows "\<exists>m. r = Inr m \<and>
           ((\<exists>ev \<in> set (newEvents s s'). failedCall ev) \<longrightarrow> m = fallbackMessage d) \<and>
           ((\<forall>out \<in> set (List.map_filter diffOutput (newEvents s s')). trim out = []) \<longrightarrow>
              m = fallbackMessage d) \<and>
           ((\<exists>response \<in> set (List.map_filter configResponse (newEvents s s')).
               unresolvable response) \<longrightarrow> m = fallbackMessage d) \<and>
           ((\<exists>created \<in> set (List.map_filter createResult (newEvents s s')).
               \<not> truthy (sessionIdOf created)) \<longrightarrow> m = fallbackMessage d) \<and>
           ((\<exists>response \<in> set (List.map_filter promptResponse (newEvents s s')).
               \<forall>t. textOfResponse response = Inr (Some t) \<longrightarrow> sanitizeMessage t = []) \<longrightarrow>
              m = fallbackMessage d) \<and>
           (m \<noteq> fallbackMessage d \<longrightarrow>
              (\<exists>response t.
                 List.map_filter promptResponse (newEvents s s') = [response] \<and>
                 textOfResponse response = Inr (Some t) \<and> t \<noteq> [] \<and>
                 sanitizeMessage t \<noteq> [] \<and> m = sanitizeMessage t)) \<and>
           fallbackMessage d = lit ''Sync OpenCode config ('' @ formatDate d @ lit '')'' \<and>
           (\<forall>y mo da.
              getFullYear d = Whole y \<and> getMonth d = Whole mo \<and> getDate d = Whole da \<and>
              1000 \<le> y \<and> y \<le> 9999 \<and> 0 \<le> mo \<and> mo \<le> 11 \<and> 1 \<le> da \<and> da \<le> 31 \<longrightarrow>
              isYMD (formatDate d) \<and>
              int (readNat (take 4 (formatDate d))) = y \<and>
              int (readNat (take 2 (drop 5 (formatDate d)))) = mo + 1 \<and>
              int (readNat (drop 8 (formatDate d))) = da)"
proof -
  let ?evs = "newEvents s s'"
  let ?fb = "fallbackMessage d"
  let ?m = "messageFrom ?fb (List.map_filter promptResponse ?evs)"
  have r: "r = Inr ?m"
    using wpD [OF gcm_result assms(1)] assms(2) by (simp add: expectedMessage_def)
  have cases: "?m = ?fb \<or>
      (\<exists>response t.
         List.map_filter promptResponse ?evs = [response] \<and>
         textOfResponse response = Inr (Some t) \<and> t \<noteq> [] \<and>
         sanitizeMessage t \<noteq> [] \<and> ?m = sanitizeMessage t)"
    by (rule messageFrom_cases)
  have none: "List.map_filter promptResponse ?evs = [] \<Longrightarrow> ?m = ?fb"
    by simp
  have failed: "(\<exists>ev \<in> set ?evs. failedCall ev) \<longrightarrow> ?m = ?fb"
    using wpD [OF gcm_failed assms(1)] none by blast
  have summary: "(\<forall>out \<in> set (List.map_filter diffOutput ?evs). trim out = []) \<longrightarrow> ?m = ?fb"
    using wpD [OF gcm_no_summary assms(1)] none by blast
  have model: "(\<exists>response \<in> set (List.map_filter configResponse ?evs). unresolvable response) \<longrightarrow>
      ?m = ?fb"
    using wpD [OF gcm_no_model assms(1)] none by blast
  have session: "(\<exists>created \<in> set (List.map_filter createResult ?evs).
      \<not> truthy (sessionIdOf created)) \<longrightarrow> ?m = ?fb"
    using wpD [OF gcm_no_session assms(1)] none by blast
  have unusable: "(\<exists>response \<in> set (List.map_filter promptResponse ?evs).
      \<forall>t. textOfResponse response = Inr (Some t) \<longrightarrow> sanitizeMessage t = []) \<longrightarrow> ?m = ?fb"
    using cases by auto
  have usable: "?m \<noteq> ?fb \<longrightarrow>
      (\<exists>response t.
         List.map_filter promptResponse ?evs = [response] \<and>
         textOfResponse response = Inr (Some t) \<and> t \<noteq> [] \<and>
         sanitizeMessage t \<noteq> [] \<and> ?m = sanitizeMessage t)"
    using cases by blast
  have date: "\<forall>y mo da.
      getFullYear d = Whole y \<and> getMonth d = Whole mo \<and> getDate d = Whole da \<and>
      1000 \<le> y \<and> y \<le> 9999 \<and> 0 \<le> mo \<and> mo \<le> 11 \<and> 1 \<le> da \<and> da \<le> 31 \<longrightarrow>
      isYMD (formatDate d) \<and>
      int (readNat (take 4 (formatDate d))) = y \<and>
      int (readNat (take 2 (drop 5 (formatDate d)))) = mo + 1 \<and>
      int (readNat (drop 8 (formatDate d))) = da"
    using formatDate_digits [of d] by blast
  have fb: "?fb = lit ''Sync OpenCode config ('' @ formatDate d @ lit '')''"
    by (simp add: fallbackMessage_def)
  show ?thesis
    using r failed summary model session unusable usable date fb by blast
qed

theorem generateCommitMessage_total_witness:
  "generateCommitMessage simCtx (lit ''/repo'') testDate
     (simSys (simWorld0\<lparr>modelReply := Inr brokenReply, deleteFails := False\<rparr>)) =
     (Inr (lit ''Sync OpenCode config (2026-11-03)''),
      (simSys (simWorld0\<lparr>modelReply := Inr brokenReply, deleteFails := False\<rparr>))
        \<lparr>trace := commitTrace (lit ''/repo'') (Inr brokenReply) (Inr ())\<rparr>) \<and>
   List.map_filter configResponse (commitTrace (lit ''/repo'') (Inr brokenReply) (Inr ())) =
     [simConfigResponse] \<and>
   wellTypedConfig simConfigResponse \<and>
   List.map_filter promptResponse (commitTrace (lit ''/repo'') (Inr brokenReply) (Inr ())) =
     [brokenReply] \<and>
   textOfResponse brokenReply = Inl (notAFunction (lit ''parts.find'')) \<and>
   fallbackMessage testDate = lit ''Sync OpenCode config (2026-11-03)'' \<and>
   isYMD (formatDate testDate) \<and>
   readNat (take 4 (formatDate testDate)) = 2026 \<and>
   readNat (take 2 (drop 5 (formatDate testDate))) = 11 \<and>
   readNat (drop 8 (formatDate testDate)) = 3"
proof -
  let ?s = "simSys (simWorld0\<lparr>modelReply := Inr brokenReply, deleteFails := False\<rparr>)"
  let ?evs = "commitTrace (lit ''/repo'') (Inr brokenReply) (Inr ())"
  have cfg: "List.map_filter configResponse ?evs = [simConfigResponse]"
    by (simp add: commitTrace_def List.map_filter_simps)
  have prompted: "List.map_filter promptResponse ?evs = [brokenReply]"
    by (simp add: commitTrace_def List.map_filter_simps)
  have typed: "wellTypedConfig simConfigResponse"
    by (simp add: wellTypedConfig_def simConfigResponse_def optionalString_def js_defs)
  have unusable: "textOfResponse brokenReply = Inl (notAFunction (lit ''parts.find''))"
    by (simp add: textOfResponse_def brokenReply_def js_defs)
  have "\<exists>r. generateCommitMessage simCtx (lit ''/repo'') testDate ?s = (r, ?s\<lparr>trace := ?evs\<rparr>)"
    by (simp only: sim_commit_run sum.case if_False) simp
  then obtain r where run: "generateCommitMessage simCtx (lit ''/repo'') testDate ?s =
      (r, ?s\<lparr>trace := ?evs\<rparr>)" ..
  have all: "\<forall>response \<in> set (List.map_filter configResponse (newEvents ?s (?s\<lparr>trace := ?evs\<rparr>))).
      wellTypedConfig response"
    by (simp only: newEvents_simSys cfg) (simp add: typed)
  have day: "getFullYear testDate = Whole 2026 \<and> getMonth testDate = Whole 10 \<and>
      getDate testDate = Whole 3"
    by (simp add: testDate_def)
  note total = generateCommitMessage_total [OF run all, unfolded newEvents_simSys prompted]
  have "r = Inr (fallbackMessage testDate)"
    using total unusable by auto
  moreover have "isYMD (formatDate testDate) \<and>
      int (readNat (take 4 (formatDate testDate))) = 2026 \<and>
      int (readNat (take 2 (drop 5 (formatDate testDate)))) = 10 + 1 \<and>
      int (readNat (drop 8 (formatDate testDate))) = 3"
    using total day by auto
  ultimately show ?thesis
    using run cfg prompted typed unusable by (simp add: fallback_testDate)
qed

lemma gcm_cleanup_once:
  "wp (generateCommitMessage c repoDir d)
     (\<lambda>r s'. List.map_filter deletedSession (newEvents s s') =
               List.map_filter createdSession (newEvents s s') \<and>
             length (List.map_filter createdSession (newEvents s s')) \<le> 1) s"
  unfolding commit_defs
  by (auto simp: run_simps split: sum.split option.split)

lemma createdSession_mem:
  "SessionCreate title (Inr sessionResult) \<in> set evs \<Longrightarrow> truthy (sessionIdOf sessionResult) \<Longrightarrow>
   sessionIdOf sessionResult \<in> set (List.map_filter createdSession evs)"
  by (induction evs) (auto simp: List.map_filter_simps split: option.split)

lemma singleton_list: "x \<in> set xs \<Longrightarrow> length xs \<le> 1 \<Longrightarrow> xs = [x]"
  by (cases xs) auto

text \<open>
  Claim C8.  When a run of \<open>generateCommitMessage\<close> obtained a session id (a truthy id from a
  successful \<open>session.create\<close>), it calls \<open>session.delete\<close> exactly once, for that id and as
  its last call, whatever happened to the prompt and the extraction; it still returns a
  message, and the message does not depend on what \<open>session.delete\<close> does.
\<close>

theorem generateCommitMessage_releases_session:
  assumes "generateCommitMessage c repoDir d s = (r, s')"
    and "SessionCreate title (Inr sessionResult) \<in> set (newEvents s s')"
    and "truthy (sessionIdOf sessionResult)"
  shows "List.map_filter deletedSession (newEvents s s') = [sessionIdOf sessionResult] \<and>
         isSessionDelete (last (newEvents s s')) \<and>
         (\<exists>m. r = Inr m) \<and>
         (\<forall>del. fst (generateCommitMessage (c\<lparr>sessionDelete_p := del\<rparr>) repoDir d s) = r)"
proof -
  let ?evs = "newEvents s s'"
  have once: "List.map_filter deletedSession ?evs = List.map_filter createdSession ?evs"
    "length (List.map_filter createdSession ?evs) \<le> 1"
    using wpD [OF gcm_cleanup_once assms(1)] by simp_all
  have "List.map_filter createdSession ?evs = [sessionIdOf sessionResult]"
    using createdSession_mem [OF assms(2,3)] once(2) by (rule singleton_list)
  moreover from this have "isSessionDelete (last ?evs) \<and> (\<exists>m. r = Inr m)"
    using wpD [OF gcm_cleanup assms(1)] by simp
  moreover have "\<forall>del. fst (generateCommitMessage (c\<lparr>sessionDelete_p := del\<rparr>) repoDir d s) = r"
    using gcm_delete_independent [where c = c and repoDir = repoDir and d = d and s = s] assms(1)
    by simp
  ultimately show ?thesis using once(1) by simp
qed

theorem generateCommitMessage_releases_session_witness:
  "generateCommitMessage simCtx (lit ''/repo'') testDate
     (simSys (simWorld0\<lparr>modelReply := Inl (Thrown (lit ''timeout'')), deleteFails := True\<rparr>)) =
     (Inr (fallbackMessage testDate),
      (simSys (simWorld0\<lparr>modelReply := Inl (Thrown (lit ''timeout'')), deleteFails := True\<rparr>))
        \<lparr>trace := commitTrace (lit ''/repo'') (Inl (Thrown (lit ''timeout'')))
                    (Inl (Thrown (lit ''gone'')))\<rparr>) \<and>
   SessionCreate (lit ''opencode-sync'') (Inr simSessionResult) \<in>
     set (commitTrace (lit ''/repo'') (Inl (Thrown (lit ''timeout''))) (Inl (Thrown (lit ''gone'')))) \<and>
   sessionIdOf simSessionResult = JStr (lit ''ses_1'') \<and>
   List.map_filter deletedSession
     (commitTrace (lit ''/repo'') (Inl (Thrown (lit ''timeout''))) (Inl (Thrown (lit ''gone'')))) =
     [JStr (lit ''ses_1'')] \<and>
   fst (generateCommitMessage (simCtx\<lparr>sessionDelete_p := \<lambda>sessionId w. (Inr (), w)\<rparr>)
          (lit ''/repo'') testDate
          (simSys (simWorld0\<lparr>modelReply := Inl (Thrown (lit ''timeout'')), deleteFails := True\<rparr>))) =
     Inr (fallbackMessage testDate)"
proof -
  let ?s = "simSys (simWorld0\<lparr>modelReply := Inl (Thrown (lit ''timeout'')), deleteFails := True\<rparr>)"
  let ?evs = "commitTrace (lit ''/repo'') (Inl (Thrown (lit ''timeout''))) (Inl (Thrown (lit ''gone'')))"
  have run: "generateCommitMessage simCtx (lit ''/repo'') testDate ?s =
     (Inr (fallbackMessage testDate), ?s\<lparr>trace := ?evs\<rparr>)"
    by (simp only: sim_commit_run sum.case if_True)
  have mem: "SessionCreate (lit ''opencode-sync'') (Inr simSessionResult) \<in> set (newEvents ?s (?s\<lparr>trace := ?evs\<rparr>))"
    by (simp only: newEvents_simSys) (simp add: commitTrace_def)
  have sid: "sessionIdOf simSessionResult = JStr (lit ''ses_1'')"
    by (simp add: simSessionResult_def js_defs Let_def)
  have tr: "truthy (sessionIdOf simSessionResult)"
    by (simp add: sid lit_def)
  from generateCommitMessage_releases_session [OF run mem tr]
  show ?thesis
    using run mem sid by (simp only: newEvents_simSys)
qed

section \<open>Properties of the sync service\<close>

subsection \<open>Symbolic execution of the flows\<close>

lemma wp_getsIO: "wp (getsIO f) Q s = Q (Inr (f s)) s"
  by (simp add: wp_def getsIO_def)

lemma wp_modifyIO: "wp (modifyIO g) Q s = Q (Inr ()) (g s)"
  by (simp add: wp_def modifyIO_def)

lemma ex_bindIO:
  "wp (bindIO m f) Q s =
     wp m (\<lambda>r s'. (\<forall>e. r = Inl e \<longrightarrow> Q (Inl e) s') \<and> (\<forall>x. r = Inr x \<longrightarrow> wp (f x) Q s')) s"
  by (simp add: wp_def bindIO_def split: prod.split sum.split)

lemma ex_catchIO:
  "wp (catchIO m h) Q s =
     wp m (\<lambda>r s'. (\<forall>e. r = Inl e \<longrightarrow> wp (h e) Q s') \<and> (\<forall>x. r = Inr x \<longrightarrow> Q (Inr x) s')) s"
  by (simp add: wp_def catchIO_def split: prod.split sum.split)

lemma ex_if: "wp (if b then m1 else m2) Q s = ((b \<longrightarrow> wp m1 Q s) \<and> (\<not> b \<longrightarrow> wp m2 Q s))"
  by simp

lemma ex_case_option:
  "wp (case x of None \<Rightarrow> m1 | Some y \<Rightarrow> m2 y) Q s =
     ((x = None \<longrightarrow> wp m1 Q s) \<and> (\<forall>y. x = Some y \<longrightarrow> wp (m2 y) Q s))"
  by (simp split: option.split)

lemma ex_case_sum:
  "wp (case x of Inl e \<Rightarrow> m1 e | Inr y \<Rightarrow> m2 y) Q s =
     ((\<forall>e. x = Inl e \<longrightarrow> wp (m1 e) Q s) \<and> (\<forall>y. x = Inr y \<longrightarrow> wp (m2 y) Q s))"
  by (simp split: sum.split)

lemma ex_case_prod:
  "wp (case x of (a, b) \<Rightarrow> m a b) Q s = (\<forall>a b. x = (a, b) \<longrightarrow> wp (m a b) Q s)"
  by (simp split: prod.split)

lemma ex_perform:
  "wp (perform port ev) Q s =
     (\<forall>r w'. port (world s) = (r, w') \<longrightarrow> Q r (s\<lparr>world := w', trace := trace s @ [ev r]\<rparr>))"
  by (simp add: wp_def perform_def split: prod.split)

lemma ex_newDate:
  "wp (newDate c) Q s =
     (\<forall>d w'. newDate_p c (world s) = (d, w') \<longrightarrow> Q (Inr d) (s\<lparr>world := w'\<rparr>))"
  by (simp add: wp_def newDate_def split: prod.split)

lemma ex_generateCommitMessage:
  "wp (generateCommitMessage c dir d) Q s =
     Q (outcomeOf (generateCommitMessage c dir d) s) (stateAfter (generateCommitMessage c dir d) s)"
  by (simp add: wp_def outcomeOf_def stateAfter_def split: prod.split)

lemmas exec_rules = wp_returnIO wp_throwIO ex_bindIO ex_catchIO wp_attempt ex_perform ex_if
  ex_case_option ex_case_sum ex_case_prod wp_Let wp_getsIO wp_modifyIO ex_newDate
  ex_generateCommitMessage

lemmas flow_defs = pull_def push_def runStartup_def startupSync_def init_def enableSecrets_def
  status_def getConfigOrThrow_def ensureSecretsPolicy_def ensureRepoPrivate_def resolveBranch_def
  loadSyncConfig_def writeSyncConfig_def loadState_def writeState_def loadOverrides_def
  isRepoCloned_def ensureRepoCloned_def getRepoStatus_def hasLocalChanges_def
  fetchAndFastForward_def commitAll_def pushBranch_def syncRepoToLocal_def syncLocalToRepo_def
  showToast_def createRepo_def nowISO_def planNow_def generateCommitMessageNow_def

lemma gcm_summary:
  "wp (generateCommitMessage c dir d)
     (\<lambda>r s'. take (length (trace s)) (trace s') = trace s \<and>
             (\<forall>ev \<in> set (newEvents s s'). isMessageEvent ev) \<and>
             configFiles s' = configFiles s \<and> stateFiles s' = stateFiles s \<and>
             overridesFiles s' = overridesFiles s \<and> procEnv s' = procEnv s \<and>
             procPlatform s' = procPlatform s) s"
  unfolding commit_defs
  by (auto simp: run_simps split: sum.split option.split)

lemma gcm_after:
  "trace (stateAfter (generateCommitMessage c dir d) s) = trace s @ commitEvents c dir d s"
  "configFiles (stateAfter (generateCommitMessage c dir d) s) = configFiles s"
  "stateFiles (stateAfter (generateCommitMessage c dir d) s) = stateFiles s"
  "overridesFiles (stateAfter (generateCommitMessage c dir d) s) = overridesFiles s"
  "procEnv (stateAfter (generateCommitMessage c dir d) s) = procEnv s"
  "procPlatform (stateAfter (generateCommitMessage c dir d) s) = procPlatform s"
proof -
  let ?s' = "stateAfter (generateCommitMessage c dir d) s"
  have run: "generateCommitMessage c dir d s = (outcomeOf (generateCommitMessage c dir d) s, ?s')"
    by (simp add: outcomeOf_def stateAfter_def)
  note sum = wpD [OF gcm_summary run]
  have "trace ?s' = take (length (trace s)) (trace ?s') @ drop (length (trace s)) (trace ?s')"
    by simp
  then show "trace ?s' = trace s @ commitEvents c dir d s"
    using sum by (simp add: commitEvents_def newEvents_def)
  show "configFiles ?s' = configFiles s" "stateFiles ?s' = stateFiles s"
    "overridesFiles ?s' = overridesFiles s" "procEnv ?s' = procEnv s"
    "procPlatform ?s' = procPlatform s"
    using sum by simp_all
qed

lemma commitEvents_message: "ev \<in> set (commitEvents c dir d s) \<Longrightarrow> isMessageEvent ev"
proof -
  have run: "generateCommitMessage c dir d s =
      (outcomeOf (generateCommitMessage c dir d) s, stateAfter (generateCommitMessage c dir d) s)"
    by (simp add: outcomeOf_def stateAfter_def)
  assume "ev \<in> set (commitEvents c dir d s)"
  then show ?thesis using wpD [OF gcm_summary run] by (simp add: commitEvents_def)
qed

lemma map_filter_append:
  "List.map_filter f (xs @ ys) = List.map_filter f xs @ List.map_filter f ys"
  by (simp add: List.map_filter_def)

lemma map_filter_none: "(\<And>x. x \<in> set xs \<Longrightarrow> f x = None) \<Longrightarrow> List.map_filter f xs = []"
  by (induction xs) (simp_all add: List.map_filter_simps)

lemma message_observed:
  assumes "isMessageEvent ev"
  shows "\<not> isWrite ev" "\<not> reconciles ev" "\<not> failedStep ev" "dirtyCheck ev = None"
    "privacyCheck ev = None" "fetchOutcome ev = None" "stateWritten ev = None"
    "toastOutcome ev = None" "stepOf ev = None" "succeededStep ev = None"
    "locationsUsed ev = None" "planUsed ev = None"
  using assms by (cases ev; simp)+

lemma commitEvents_observed:
  "List.map_filter dirtyCheck (commitEvents c dir d s) = []"
  "List.map_filter privacyCheck (commitEvents c dir d s) = []"
  "List.map_filter fetchOutcome (commitEvents c dir d s) = []"
  "List.map_filter stateWritten (commitEvents c dir d s) = []"
  "List.map_filter toastOutcome (commitEvents c dir d s) = []"
  "List.map_filter stepOf (commitEvents c dir d s) = []"
  "List.map_filter succeededStep (commitEvents c dir d s) = []"
  "List.map_filter locationsUsed (commitEvents c dir d s) = []"
  "List.map_filter planUsed (commitEvents c dir d s) = []"
  by (auto intro!: map_filter_none dest!: commitEvents_message simp: message_observed)

lemma commitEvents_quiet:
  assumes "ev \<in> set (commitEvents c dir d s)"
  shows "\<not> isWrite ev" "\<not> reconciles ev" "\<not> failedStep ev" "locationsUsed ev = None"
    "planUsed ev = None"
  using commitEvents_message [OF assms] by (simp_all add: message_observed)

lemmas leaf_simps = newEvents_def map_filter_append gcm_after
  commitEvents_observed commitEvents_quiet steps_def untouched_def firstDirty_def
  firstPrivacy_def

text \<open>Runs in the simulated world are evaluated.\<close>

lemma simSvc_ctx: "svcCtx simSvc = simCtx"
  by (simp add: simSvc_def createSyncService_def)

lemmas sim_run = flow_defs io_defs getsIO_def modifyIO_def newDate_def simSvc_ctx simCtx_def
  simSys_def simSysWith_def simWorld0_def Let_def newEvents_def
  resolveRepoRoot_def testConfig_def resolveRepoBranch_def steps_def untouched_def
  firstDirty_def firstPrivacy_def

lemmas sim_commit = commit_defs js_defs simConfigResponse_def simSessionResult_def textReply_def

subsection \<open>A clone with uncommitted changes\<close>

text \<open>
  Claim C3, as the code has it.  \<open>startupSync\<close> awaits its notifications outside every
  \<open>try\<close>: with uncommitted changes in the clone and a client that rejects the
  notifications, it throws.
\<close>

theorem startup_throws_without_notifications:
  "firstDirty dirtySys (snd (startupSync mutedSvc dirtySys)) = Some (Inr True) \<and>
   fst (startupSync mutedSvc dirtySys) = Inl (Thrown (lit ''tui down''))"
  by (simp add: dirtySys_def mutedSvc_def mutedCtx_def sim_run)

text \<open>
  Claim C3, amended.  When the first dirty check of a run answers that the clone has
  uncommitted changes, \<open>pull\<close> and \<open>push\<close> throw the command error that names the
  repository root, and \<open>startupSync\<close> shows the warning that names it; none of the three
  reconciles, commits, pushes or writes the state or the configuration.  \<open>startupSync\<close>
  returns normally when the warning is delivered; it throws only when the warning was
  rejected and the error notification that reports this was rejected too, and then it
  throws what the latter threw.
\<close>

theorem dirty_tree_blocks_sync:
  "(pull svc s = (r, s') \<and> firstDirty s s' = Some (Inr True) \<longrightarrow>
      untouched s s' \<and>
      (\<exists>config. configFiles s (syncConfigPath (svcLocations svc)) = Some config \<and>
         r = Inl (SyncCommandError
               (lit ''Local sync repo has uncommitted changes. Resolve in '' @
                resolveRepoRoot config (svcLocations svc) @ lit '' before pulling.'')))) \<and>
   (push svc s = (r2, s2) \<and> firstDirty s s2 = Some (Inr True) \<longrightarrow>
      untouched s s2 \<and>
      (\<exists>config. configFiles s (syncConfigPath (svcLocations svc)) = Some config \<and>
         r2 = Inl (SyncCommandError
               (lit ''Local sync repo has uncommitted changes. Resolve in '' @
                resolveRepoRoot config (svcLocations svc) @ lit '' before pushing.'')))) \<and>
   (startupSync svc s = (u, s3) \<and> firstDirty s s3 = Some (Inr True) \<longrightarrow>
      untouched s s3 \<and>
      (\<exists>config shown. configFiles s (syncConfigPath (svcLocations svc)) = Some config \<and>
         ShowToast (lit ''opencode-sync: '' @ lit ''Local sync repo has uncommitted changes in '' @
                    resolveRepoRoot config (svcLocations svc) @ lit ''. Resolve before sync.'')
           Warning shown \<in> set (newEvents s s3) \<and>
         (shown = Inr () \<longrightarrow> u = Inr ()) \<and>
         (\<forall>e. u = Inl e \<longrightarrow>
            (\<exists>e1. shown = Inl e1 \<and>
               last (newEvents s s3) =
                 ShowToast (lit ''opencode-sync: '' @ formatError e1) Error (Inl e)))) \<and>
      toastOutcome (last (newEvents s s3)) = Some u)"
proof -
  define Q1 where "Q1 = (\<lambda>(r :: error + jstring) s'.
     firstDirty s s' = Some (Inr True) \<longrightarrow>
        untouched s s' \<and>
        (\<exists>config. configFiles s (syncConfigPath (svcLocations svc)) = Some config \<and>
           r = Inl (SyncCommandError
                 (lit ''Local sync repo has uncommitted changes. Resolve in '' @
                  resolveRepoRoot config (svcLocations svc) @ lit '' before pulling.''))))"
  define Q2 where "Q2 = (\<lambda>(r :: error + jstring) s'.
     firstDirty s s' = Some (Inr True) \<longrightarrow>
        untouched s s' \<and>
        (\<exists>config. configFiles s (syncConfigPath (svcLocations svc)) = Some config \<and>
           r = Inl (SyncCommandError
                 (lit ''Local sync repo has uncommitted changes. Resolve in '' @
                  resolveRepoRoot config (svcLocations svc) @ lit '' before pushing.''))))"
  define Q3 where "Q3 = (\<lambda>(u :: error + unit) s'.
     firstDirty s s' = Some (Inr True) \<longrightarrow>
        untouched s s' \<and>
        (\<exists>config shown. configFiles s (syncConfigPath (svcLocations svc)) = Some config \<and>
           ShowToast (lit ''opencode-sync: '' @ lit ''Local sync repo has uncommitted changes in '' @
                      resolveRepoRoot config (svcLocations svc) @ lit ''. Resolve before sync.'')
             Warning shown \<in> set (newEvents s s') \<and>
           (shown = Inr () \<longrightarrow> u = Inr ()) \<and>
           (\<forall>e. u = Inl e \<longrightarrow>
              (\<exists>e1. shown = Inl e1 \<and>
                 last (newEvents s s') =
                   ShowToast (lit ''opencode-sync: '' @ formatError e1) Error (Inl e)))) \<and>
        toastOutcome (last (newEvents s s')) = Some u)"
  have p1: "wp (pull svc) Q1 s"
    unfolding flow_defs
    apply (simp add: exec_rules Let_def split del: if_split)
    apply (simp add: Q1_def leaf_simps split del: if_split)
    done
  have p2: "wp (push svc) Q2 s"
    unfolding flow_defs
    apply (simp add: exec_rules Let_def split del: if_split)
    apply (simp add: Q2_def leaf_simps split del: if_split)
    done
  have p3: "wp (startupSync svc) Q3 s"
    unfolding flow_defs
    apply (simp add: exec_rules Let_def split del: if_split)
    apply (simp add: Q3_def leaf_simps split del: if_split)
    done
  show ?thesis
    using wpD [OF p1, of r s'] wpD [OF p2, of r2 s2] wpD [OF p3, of u s3]
    unfolding Q1_def Q2_def Q3_def by blast
qed

theorem dirty_tree_blocks_sync_witness:
  "firstDirty dirtySys (snd (pull simSvc dirtySys)) = Some (Inr True) \<and>
   untouched dirtySys (snd (pull simSvc dirtySys)) \<and>
   fst (pull simSvc dirtySys) =
     Inl (SyncCommandError
           (lit ''Local sync repo has uncommitted changes. Resolve in '' @
            defaultRepoDir (svcLocations simSvc) @ lit '' before pulling.'')) \<and>
   firstDirty dirtySys (snd (push simSvc dirtySys)) = Some (Inr True) \<and>
   untouched dirtySys (snd (push simSvc dirtySys)) \<and>
   fst (push simSvc dirtySys) =
     Inl (SyncCommandError
           (lit ''Local sync repo has uncommitted changes. Resolve in '' @
            defaultRepoDir (svcLocations simSvc) @ lit '' before pushing.'')) \<and>
   firstDirty dirtySys (snd (startupSync simSvc dirtySys)) = Some (Inr True) \<and>
   untouched dirtySys (snd (startupSync simSvc dirtySys)) \<and>
   List.map_filter toastOutcome (newEvents dirtySys (snd (startupSync simSvc dirtySys))) =
     [Inr ()] \<and>
   fst (startupSync simSvc dirtySys) = Inr ()"
proof -
  let ?c = "startupSync simSvc dirtySys"
  have h1: "firstDirty dirtySys (snd (pull simSvc dirtySys)) = Some (Inr True)"
    by (simp add: dirtySys_def sim_run)
  have h2: "firstDirty dirtySys (snd (push simSvc dirtySys)) = Some (Inr True)"
    by (simp add: dirtySys_def sim_run)
  have h3: "firstDirty dirtySys (snd ?c) = Some (Inr True)"
    by (simp add: dirtySys_def sim_run)
  have cfg: "configFiles dirtySys (syncConfigPath (svcLocations simSvc)) = Some (testConfig False)"
    by (simp add: dirtySys_def simSysWith_def)
  have root: "resolveRepoRoot (testConfig False) (svcLocations simSvc) =
      defaultRepoDir (svcLocations simSvc)"
    by (simp add: resolveRepoRoot_def testConfig_def)
  have toasts: "List.map_filter toastOutcome (newEvents dirtySys (snd ?c)) = [Inr ()]"
    by (simp add: dirtySys_def sim_run)
  have delivered: "\<And>message v shown.
      ShowToast message v shown \<in> set (newEvents dirtySys (snd ?c)) \<Longrightarrow> shown = Inr ()"
    by (simp add: dirtySys_def sim_run)
  note inst = dirty_tree_blocks_sync [of simSvc dirtySys "fst (pull simSvc dirtySys)"
      "snd (pull simSvc dirtySys)" "fst (push simSvc dirtySys)" "snd (push simSvc dirtySys)"
      "fst ?c" "snd ?c", unfolded prod.collapse]
  have parts: "untouched dirtySys (snd (pull simSvc dirtySys)) \<and>
      fst (pull simSvc dirtySys) =
        Inl (SyncCommandError
              (lit ''Local sync repo has uncommitted changes. Resolve in '' @
               defaultRepoDir (svcLocations simSvc) @ lit '' before pulling.'')) \<and>
      untouched dirtySys (snd (push simSvc dirtySys)) \<and>
      fst (push simSvc dirtySys) =
        Inl (SyncCommandError
              (lit ''Local sync repo has uncommitted changes. Resolve in '' @
               defaultRepoDir (svcLocations simSvc) @ lit '' before pushing.'')) \<and>
      untouched dirtySys (snd ?c)"
    using inst h1 h2 h3 by (simp add: cfg root)
  have "\<exists>shown. (\<exists>message v. ShowToast message v shown \<in> set (newEvents dirtySys (snd ?c))) \<and>
      (shown = Inr () \<longrightarrow> fst ?c = Inr ())"
    using inst h3
    apply (simp only: simp_thms)
    apply (elim conjE exE)
    apply (rule exI, rule conjI, rule exI, rule exI, assumption, assumption)
    done
  then have "fst ?c = Inr ()"
    using delivered by blast
  then show ?thesis using parts h1 h2 h3 toasts by simp
qed

subsection \<open>Secrets and a remote that is not private\<close>






subsection \<open>The startup flow with a clean clone\<close>



subsection \<open>When the state is written\<close>

text \<open>
  Claim C5, as the code has it.  \<open>pull\<close> awaits the notification after it has written
  the state: when the client rejects the notification, \<open>pull\<close> fails and \<open>lastPull\<close> and
  \<open>lastRemoteUpdate\<close> are updated.
\<close>

theorem failed_pull_updates_lastPull:
  "fst (pull mutedSvc aheadSys) = Inl (Thrown (lit ''tui down'')) \<and>
   stateFiles aheadSys (statePath (svcLocations mutedSvc)) = None \<and>
   stateFiles (snd (pull mutedSvc aheadSys)) (statePath (svcLocations mutedSvc)) =
     Some \<lparr>lastPull = Some (toISOString testDate), lastPush = None,
           lastRemoteUpdate = Some (toISOString testDate)\<rparr>"
  by (simp add: aheadSys_def mutedSvc_def mutedCtx_def sim_run storedState_def emptyState_def
        replaceFields_def pulledState_def)

text \<open>
  Claim C5, amended.  In \<open>pull\<close>, \<open>push\<close> and the startup flow the state is written only
  as the step after the ones it records: after a fetch that reported an update and a
  completed reconciliation to local, or after a completed reconciliation to the clone,
  commit and push.  A run in which a fetch, a reconciliation, a commit or a push threw
  fails, makes no state write and leaves the state as it was; so does every run without
  a state write.  A \<open>push\<close> that fails leaves the state as it was.  A \<open>pull\<close> or a startup
  flow that fails has changed the state only when what failed is its last step, the
  notification after the completed reconciliation and state write.
\<close>

theorem state_written_after_steps:
  "(pull svc s = (r1, s1) \<longrightarrow>
      (StateWrite \<in> set (steps (newEvents s s1)) \<longrightarrow>
         take 5 (steps (newEvents s s1)) = [Dirty, Fetch, Overrides, RepoToLocal, StateWrite] \<and>
         List.map_filter succeededStep (newEvents s s1) = [Fetch, RepoToLocal]) \<and>
      ((\<exists>ev \<in> set (newEvents s s1). failedStep ev) \<longrightarrow>
         (\<exists>e. r1 = Inl e) \<and> StateWrite \<notin> set (steps (newEvents s s1))) \<and>
      (StateWrite \<notin> set (steps (newEvents s s1)) \<longrightarrow> stateFiles s1 = stateFiles s) \<and>
      (\<forall>e. r1 = Inl e \<and> stateFiles s1 \<noteq> stateFiles s \<longrightarrow>
         last (newEvents s s1) =
           ShowToast (lit ''opencode-sync: '' @ lit ''Config updated. Restart OpenCode to apply.'')
             Info (Inl e))) \<and>
   (push svc s = (r2, s2) \<longrightarrow>
      (StateWrite \<in> set (steps (newEvents s s2)) \<longrightarrow>
         steps (newEvents s s2) =
           [Dirty, Overrides, LocalToRepo, Dirty, Commit, Push, StateWrite] \<and>
         List.map_filter succeededStep (newEvents s s2) = [LocalToRepo, Commit, Push]) \<and>
      ((\<exists>ev \<in> set (newEvents s s2). failedStep ev) \<longrightarrow>
         (\<exists>e. r2 = Inl e) \<and> StateWrite \<notin> set (steps (newEvents s s2))) \<and>
      (StateWrite \<notin> set (steps (newEvents s s2)) \<longrightarrow> stateFiles s2 = stateFiles s) \<and>
      ((\<exists>e. r2 = Inl e) \<longrightarrow> stateFiles s2 = stateFiles s)) \<and>
   (runStartup c locations config s = (u3, s3) \<longrightarrow>
      (StateWrite \<in> set (steps (newEvents s s3)) \<longrightarrow>
         (take 5 (steps (newEvents s s3)) = [Dirty, Fetch, Overrides, RepoToLocal, StateWrite] \<and>
          List.map_filter succeededStep (newEvents s s3) = [Fetch, RepoToLocal]) \<or>
         (steps (newEvents s s3) =
            [Dirty, Fetch, Overrides, LocalToRepo, Dirty, Commit, Push, StateWrite] \<and>
          List.map_filter succeededStep (newEvents s s3) = [LocalToRepo, Commit, Push])) \<and>
      ((\<exists>ev \<in> set (newEvents s s3). failedStep ev) \<longrightarrow>
         (\<exists>e. u3 = Inl e) \<and> StateWrite \<notin> set (steps (newEvents s s3))) \<and>
      (StateWrite \<notin> set (steps (newEvents s s3)) \<longrightarrow> stateFiles s3 = stateFiles s) \<and>
      (\<forall>e. u3 = Inl e \<and> stateFiles s3 \<noteq> stateFiles s \<longrightarrow>
         last (newEvents s s3) =
           ShowToast (lit ''opencode-sync: '' @ lit ''Config updated. Restart OpenCode to apply.'')
             Info (Inl e)))"
proof -
  define Q1 where "Q1 = (\<lambda>(r1 :: error + jstring) s1.
      (StateWrite \<in> set (steps (newEvents s s1)) \<longrightarrow>
         take 5 (steps (newEvents s s1)) = [Dirty, Fetch, Overrides, RepoToLocal, StateWrite] \<and>
         List.map_filter succeededStep (newEvents s s1) = [Fetch, RepoToLocal]) \<and>
      ((\<exists>ev \<in> set (newEvents s s1). failedStep ev) \<longrightarrow>
         (\<exists>e. r1 = Inl e) \<and> StateWrite \<notin> set (steps (newEvents s s1))) \<and>
      (StateWrite \<notin> set (steps (newEvents s s1)) \<longrightarrow> stateFiles s1 = stateFiles s) \<and>
      (\<forall>e. r1 = Inl e \<and> stateFiles s1 \<noteq> stateFiles s \<longrightarrow>
         last (newEvents s s1) =
           ShowToast (lit ''opencode-sync: '' @ lit ''Config updated. Restart OpenCode to apply.'')
             Info (Inl e)))"
  define Q2 where "Q2 = (\<lambda>(r2 :: error + jstring) s2.
      (StateWrite \<in> set (steps (newEvents s s2)) \<longrightarrow>
         steps (newEvents s s2) =
           [Dirty, Overrides, LocalToRepo, Dirty, Commit, Push, StateWrite] \<and>
         List.map_filter succeededStep (newEvents s s2) = [LocalToRepo, Commit, Push]) \<and>
      ((\<exists>ev \<in> set (newEvents s s2). failedStep ev) \<longrightarrow>
         (\<exists>e. r2 = Inl e) \<and> StateWrite \<notin> set (steps (newEvents s s2))) \<and>
      (StateWrite \<notin> set (steps (newEvents s s2)) \<longrightarrow> stateFiles s2 = stateFiles s) \<and>
      ((\<exists>e. r2 = Inl e) \<longrightarrow> stateFiles s2 = stateFiles s))"
  define Q3 where "Q3 = (\<lambda>(u3 :: error + unit) s3.
      (StateWrite \<in> set (steps (newEvents s s3)) \<longrightarrow>
         (take 5 (steps (newEvents s s3)) = [Dirty, Fetch, Overrides, RepoToLocal, StateWrite] \<and>
          List.map_filter succeededStep (newEvents s s3) = [Fetch, RepoToLocal]) \<or>
         (steps (newEvents s s3) =
            [Dirty, Fetch, Overrides, LocalToRepo, Dirty, Commit, Push, StateWrite] \<and>
          List.map_filter succeededStep (newEvents s s3) = [LocalToRepo, Commit, Push])) \<and>
      ((\<exists>ev \<in> set (newEvents s s3). failedStep ev) \<longrightarrow>
         (\<exists>e. u3 = Inl e) \<and> StateWrite \<notin> set (steps (newEvents s s3))) \<and>
      (StateWrite \<notin> set (steps (newEvents s s3)) \<longrightarrow> stateFiles s3 = stateFiles s) \<and>
      (\<forall>e. u3 = Inl e \<and> stateFiles s3 \<noteq> stateFiles s \<longrightarrow>
         last (newEvents s s3) =
           ShowToast (lit ''opencode-sync: '' @ lit ''Config updated. Restart OpenCode to apply.'')
             Info (Inl e)))"
  have p1: "wp (pull svc) Q1 s"
    unfolding flow_defs
    apply (simp add: exec_rules Let_def split del: if_split)
    apply (simp add: Q1_def leaf_simps split del: if_split)
    done
  have p2: "wp (push svc) Q2 s"
    unfolding flow_defs
    apply (simp add: exec_rules Let_def split del: if_split)
    apply (simp add: Q2_def leaf_simps split del: if_split)
    done
  have p3: "wp (runStartup c locations config) Q3 s"
    unfolding flow_defs
    apply (simp add: exec_rules Let_def split del: if_split)
    apply (simp add: Q3_def leaf_simps split del: if_split)
    done
  show ?thesis
    using wpD [OF p1, of r1 s1] wpD [OF p2, of r2 s2] wpD [OF p3, of u3 s3]
    unfolding Q1_def Q2_def Q3_def by blast
qed

theorem state_written_after_steps_witness:
  "StateWrite \<in> set (steps (newEvents aheadSys (snd (pull simSvc aheadSys)))) \<and>
   List.map_filter succeededStep (newEvents aheadSys (snd (pull simSvc aheadSys))) =
     [Fetch, RepoToLocal] \<and>
   StateWrite \<in> set (steps (newEvents editedSys (snd (push simSvc editedSys)))) \<and>
   List.map_filter succeededStep (newEvents editedSys (snd (push simSvc editedSys))) =
     [LocalToRepo, Commit, Push] \<and>
   (\<exists>ev \<in> set (newEvents aheadSys (snd (pull (simSvc\<lparr>svcCtx := failingCtx\<rparr>) aheadSys))).
      failedStep ev) \<and>
   fst (pull (simSvc\<lparr>svcCtx := failingCtx\<rparr>) aheadSys) = Inl (Thrown (lit ''EACCES'')) \<and>
   stateFiles (snd (pull (simSvc\<lparr>svcCtx := failingCtx\<rparr>) aheadSys)) = stateFiles aheadSys \<and>
   (\<exists>ev \<in> set (newEvents editedSys
        (snd (runStartup rejectingCtx (svcLocations simSvc) (testConfig False) editedSys))).
      failedStep ev) \<and>
   fst (runStartup rejectingCtx (svcLocations simSvc) (testConfig False) editedSys) =
     Inl (Thrown (lit ''rejected'')) \<and>
   stateFiles (snd (runStartup rejectingCtx (svcLocations simSvc) (testConfig False) editedSys)) =
     stateFiles editedSys \<and>
   stateFiles (snd (pull mutedSvc aheadSys)) \<noteq> stateFiles aheadSys \<and>
   last (newEvents aheadSys (snd (pull mutedSvc aheadSys))) =
     ShowToast (lit ''opencode-sync: '' @ lit ''Config updated. Restart OpenCode to apply.'')
       Info (Inl (Thrown (lit ''tui down'')))"
proof -
  let ?a = "pull simSvc aheadSys"
  let ?b = "push simSvc editedSys"
  let ?c = "pull (simSvc\<lparr>svcCtx := failingCtx\<rparr>) aheadSys"
  let ?d = "runStartup rejectingCtx (svcLocations simSvc) (testConfig False) editedSys"
  have a1: "StateWrite \<in> set (steps (newEvents aheadSys (snd ?a)))"
    by (simp add: aheadSys_def sim_run)
  have b1: "StateWrite \<in> set (steps (newEvents editedSys (snd ?b)))"
    by (simp add: editedSys_def sim_run sim_commit)
  have c1: "\<exists>ev \<in> set (newEvents aheadSys (snd ?c)). failedStep ev"
    by (simp add: aheadSys_def failingCtx_def sim_run)
  have c2: "fst ?c = Inl (Thrown (lit ''EACCES''))"
    by (simp add: aheadSys_def failingCtx_def sim_run)
  have d1: "\<exists>ev \<in> set (newEvents editedSys (snd ?d)). failedStep ev"
    by (simp add: editedSys_def rejectingCtx_def sim_run sim_commit)
  have d2: "fst ?d = Inl (Thrown (lit ''rejected''))"
    by (simp add: editedSys_def rejectingCtx_def sim_run sim_commit)
  note a = state_written_after_steps [where svc = simSvc and s = aheadSys and ?r1.0 = "fst ?a"
      and ?s1.0 = "snd ?a", unfolded prod.collapse]
  note b = state_written_after_steps [where svc = simSvc and s = editedSys and ?r2.0 = "fst ?b"
      and ?s2.0 = "snd ?b", unfolded prod.collapse]
  note c = state_written_after_steps [where svc = "simSvc\<lparr>svcCtx := failingCtx\<rparr>"
      and s = aheadSys and ?r1.0 = "fst ?c" and ?s1.0 = "snd ?c", unfolded prod.collapse]
  note d = state_written_after_steps [where c = rejectingCtx and locations = "svcLocations simSvc"
      and config = "testConfig False" and s = editedSys and ?u3.0 = "fst ?d" and ?s3.0 = "snd ?d",
      unfolded prod.collapse]
  have a': "List.map_filter succeededStep (newEvents aheadSys (snd ?a)) = [Fetch, RepoToLocal]"
    using a a1 by simp
  have b': "List.map_filter succeededStep (newEvents editedSys (snd ?b)) =
      [LocalToRepo, Commit, Push]"
    using b b1 by simp
  have c': "stateFiles (snd ?c) = stateFiles aheadSys"
    using c c1 by simp
  have d': "stateFiles (snd ?d) = stateFiles editedSys"
    using d d1 by simp
  have e1: "pull mutedSvc aheadSys = (Inl (Thrown (lit ''tui down'')), snd (pull mutedSvc aheadSys))"
    by (simp add: prod_eq_iff aheadSys_def mutedSvc_def mutedCtx_def sim_run)
  have e2: "stateFiles (snd (pull mutedSvc aheadSys)) \<noteq> stateFiles aheadSys"
    by (simp add: aheadSys_def mutedSvc_def mutedCtx_def sim_run)
  from state_written_after_steps [where svc = mutedSvc and s = aheadSys
      and ?r1.0 = "Inl (Thrown (lit ''tui down''))" and ?s1.0 = "snd (pull mutedSvc aheadSys)",
      THEN conjunct1] e1 e2
  have e': "last (newEvents aheadSys (snd (pull mutedSvc aheadSys))) =
     ShowToast (lit ''opencode-sync: '' @ lit ''Config updated. Restart OpenCode to apply.'')
       Info (Inl (Thrown (lit ''tui down'')))"
    by blast
  show ?thesis using a1 a' b1 b' c1 c2 c' d1 d2 d' e2 e' by simp
qed

subsection \<open>What a state write replaces\<close>

lemma replaceFields_pushed:
  "replaceFields old (pushedState t) = old\<lparr>lastPush := Some t\<rparr>"
  by (simp add: replaceFields_def pushedState_def)

lemma replaceFields_pulled:
  "replaceFields old (pulledState t1 t2) = old\<lparr>lastPull := Some t1, lastRemoteUpdate := Some t2\<rparr>"
  by (simp add: replaceFields_def pulledState_def)

text \<open>
  Claim C6.  A \<open>push\<close> that returns after it pushed has written the state once, with
  \<open>lastPush\<close> alone, and the persisted state is the one before with \<open>lastPush\<close> replaced;
  a \<open>pull\<close> that returns after it reconciled has written the state once, with \<open>lastPull\<close>
  and \<open>lastRemoteUpdate\<close> alone, and the persisted state is the one before with these two
  replaced.  A \<open>push\<close> or \<open>pull\<close> that returns without these steps leaves the state as it
  was.
\<close>

theorem state_fields_replaced:
  "(push svc s = (Inr m1, s1) \<longrightarrow>
      (Push \<in> set (steps (newEvents s s1)) \<longrightarrow>
         (\<exists>t. List.map_filter stateWritten (newEvents s s1) = [pushedState t] \<and>
              stateFiles s1 =
                (stateFiles s)(statePath (svcLocations svc) \<mapsto>
                   (storedState s (svcLocations svc))\<lparr>lastPush := Some t\<rparr>))) \<and>
      (Push \<notin> set (steps (newEvents s s1)) \<longrightarrow> stateFiles s1 = stateFiles s)) \<and>
   (pull svc s = (Inr m2, s2) \<longrightarrow>
      (RepoToLocal \<in> set (steps (newEvents s s2)) \<longrightarrow>
         (\<exists>t1 t2. List.map_filter stateWritten (newEvents s s2) = [pulledState t1 t2] \<and>
              stateFiles s2 =
                (stateFiles s)(statePath (svcLocations svc) \<mapsto>
                   (storedState s (svcLocations svc))
                     \<lparr>lastPull := Some t1, lastRemoteUpdate := Some t2\<rparr>))) \<and>
      (RepoToLocal \<notin> set (steps (newEvents s s2)) \<longrightarrow> stateFiles s2 = stateFiles s))"
proof -
  define Q1 where "Q1 = (\<lambda>(r :: error + jstring) s1. \<forall>m1. r = Inr m1 \<longrightarrow>
      (Push \<in> set (steps (newEvents s s1)) \<longrightarrow>
         (\<exists>t. List.map_filter stateWritten (newEvents s s1) = [pushedState t] \<and>
              stateFiles s1 =
                (stateFiles s)(statePath (svcLocations svc) \<mapsto>
                   (storedState s (svcLocations svc))\<lparr>lastPush := Some t\<rparr>))) \<and>
      (Push \<notin> set (steps (newEvents s s1)) \<longrightarrow> stateFiles s1 = stateFiles s))"
  define Q2 where "Q2 = (\<lambda>(r :: error + jstring) s2. \<forall>m2. r = Inr m2 \<longrightarrow>
      (RepoToLocal \<in> set (steps (newEvents s s2)) \<longrightarrow>
         (\<exists>t1 t2. List.map_filter stateWritten (newEvents s s2) = [pulledState t1 t2] \<and>
              stateFiles s2 =
                (stateFiles s)(statePath (svcLocations svc) \<mapsto>
                   (storedState s (svcLocations svc))
                     \<lparr>lastPull := Some t1, lastRemoteUpdate := Some t2\<rparr>))) \<and>
      (RepoToLocal \<notin> set (steps (newEvents s s2)) \<longrightarrow> stateFiles s2 = stateFiles s))"
  have inj: "\<And>a b. (pushedState a = pushedState b) = (a = b)"
    "\<And>a b c d. (pulledState a b = pulledState c d) = (a = c \<and> b = d)"
    by (auto simp: pushedState_def pulledState_def)
  have p1: "wp (push svc) Q1 s"
    unfolding flow_defs
    apply (simp add: exec_rules Let_def split del: if_split)
    apply (simp add: Q1_def leaf_simps storedState_def replaceFields_pushed inj
             split del: if_split)
    done
  have p2: "wp (pull svc) Q2 s"
    unfolding flow_defs
    apply (simp add: exec_rules Let_def split del: if_split)
    apply (simp add: Q2_def leaf_simps storedState_def replaceFields_pulled inj
             split del: if_split)
    done
  show ?thesis
    using wpD [OF p1, of "Inr m1" s1] wpD [OF p2, of "Inr m2" s2]
    unfolding Q1_def Q2_def by blast
qed

theorem state_fields_replaced_witness:
  "fst (push simSvc (withState editedSys)) =
     Inr (lit ''Pushed changes: '' @ lit ''Update opencode config'') \<and>
   Push \<in> set (steps (newEvents (withState editedSys) (snd (push simSvc (withState editedSys))))) \<and>
   stateFiles (snd (push simSvc (withState editedSys))) (statePath (svcLocations simSvc)) =
     Some (earlierState\<lparr>lastPush := Some (toISOString testDate)\<rparr>) \<and>
   fst (pull simSvc (withState aheadSys)) =
     Inr (lit ''Remote config applied. Restart OpenCode to use new settings.'') \<and>
   RepoToLocal \<in> set (steps (newEvents (withState aheadSys) (snd (pull simSvc (withState aheadSys))))) \<and>
   stateFiles (snd (pull simSvc (withState aheadSys))) (statePath (svcLocations simSvc)) =
     Some (earlierState\<lparr>lastPull := Some (toISOString testDate),
                         lastRemoteUpdate := Some (toISOString testDate)\<rparr>)"
proof -
  let ?a = "push simSvc (withState editedSys)"
  let ?b = "pull simSvc (withState aheadSys)"
  have a1: "?a = (Inr (lit ''Pushed changes: '' @ lit ''Update opencode config''), snd ?a)"
    by (simp add: prod_eq_iff withState_def editedSys_def sim_run sim_commit)
  have a2: "Push \<in> set (steps (newEvents (withState editedSys) (snd ?a)))"
    by (simp add: withState_def editedSys_def sim_run sim_commit)
  have a3: "List.map_filter stateWritten (newEvents (withState editedSys) (snd ?a)) =
      [pushedState (toISOString testDate)]"
    by (simp add: withState_def editedSys_def sim_run sim_commit)
  have b1: "?b = (Inr (lit ''Remote config applied. Restart OpenCode to use new settings.''), snd ?b)"
    by (simp add: prod_eq_iff withState_def aheadSys_def sim_run)
  have b2: "RepoToLocal \<in> set (steps (newEvents (withState aheadSys) (snd ?b)))"
    by (simp add: withState_def aheadSys_def sim_run)
  have b3: "List.map_filter stateWritten (newEvents (withState aheadSys) (snd ?b)) =
      [pulledState (toISOString testDate) (toISOString testDate)]"
    by (simp add: withState_def aheadSys_def sim_run)
  have st: "storedState (withState editedSys) (svcLocations simSvc) = earlierState"
    "storedState (withState aheadSys) (svcLocations simSvc) = earlierState"
    by (simp_all add: storedState_def withState_def)
  have inj: "\<And>a b. (pushedState a = pushedState b) = (a = b)"
    "\<And>a b c d. (pulledState a b = pulledState c d) = (a = c \<and> b = d)"
    by (auto simp: pushedState_def pulledState_def)
  from state_fields_replaced [where svc = simSvc and s = "withState editedSys"
      and ?m1.0 = "lit ''Pushed changes: '' @ lit ''Update opencode config''"
      and ?s1.0 = "snd ?a"] a1 a2 a3
  have a': "stateFiles (snd ?a) (statePath (svcLocations simSvc)) =
      Some (earlierState\<lparr>lastPush := Some (toISOString testDate)\<rparr>)"
    by (auto simp: st inj)
  from state_fields_replaced [where svc = simSvc and s = "withState aheadSys"
      and ?m2.0 = "lit ''Remote config applied. Restart OpenCode to use new settings.''"
      and ?s2.0 = "snd ?b"] b1 b2 b3
  have b': "stateFiles (snd ?b) (statePath (svcLocations simSvc)) =
      Some (earlierState\<lparr>lastPull := Some (toISOString testDate),
                          lastRemoteUpdate := Some (toISOString testDate)\<rparr>)"
    by (auto simp: st inj)
  have "fst ?a = Inr (lit ''Pushed changes: '' @ lit ''Update opencode config'')"
    using a1 by (metis fst_conv)
  moreover have "fst ?b = Inr (lit ''Remote config applied. Restart OpenCode to use new settings.'')"
    using b1 by (metis fst_conv)
  ultimately show ?thesis using a2 a' b2 b' by simp
qed

subsection \<open>Locations and plan of an operation\<close>

lemma commitEvents_all:
  "list_all (locationsAre locations) (commitEvents c dir d s)"
  "list_all (planIs plan) (commitEvents c dir d s)"
  by (simp_all add: list_all_iff locationsAre_def planIs_def commitEvents_quiet)

lemmas use_simps = locationsAre_def planIs_def commitEvents_all

text \<open>
  Claim C9, as the code has it.  The locations are computed once, when the service is
  created.  After the environment has changed, so that the locations it gives are other
  ones, \<open>status\<close> of the same service still reads the configuration and the state at the
  locations of the creation.
\<close>

theorem locations_computed_once:
  "simSvc = createSyncService simCtx (simSys simWorld0) \<and>
   resolveSyncLocations (procEnv movedSys) (procPlatform movedSys) \<noteq> svcLocations simSvc \<and>
   configRoot (resolveSyncLocations (procEnv movedSys) (procPlatform movedSys)) =
     lit ''/srv/opencode'' \<and>
   configRoot (svcLocations simSvc) = lit ''/home/test/.config/opencode'' \<and>
   List.map_filter locationsUsed (newEvents movedSys (snd (status simSvc movedSys))) =
     [svcLocations simSvc, svcLocations simSvc]"
proof -
  have new: "configRoot (resolveSyncLocations (procEnv movedSys) (procPlatform movedSys)) =
      lit ''/srv/opencode''"
    by (simp add: movedSys_def simSysWith_def simSys_def resolveSyncLocations_def Let_def
          lit_def)
  have old: "configRoot (svcLocations simSvc) = lit ''/home/test/.config/opencode''"
    by (simp add: simSvc_def createSyncService_def simSys_def resolveSyncLocations_def Let_def
          xdgConfigDir_def envGet_def joinPath_def sep_def lit_def)
  have "lit ''/srv/opencode'' \<noteq> lit ''/home/test/.config/opencode''"
    by (simp add: lit_def)
  then have differ: "resolveSyncLocations (procEnv movedSys) (procPlatform movedSys) \<noteq>
      svcLocations simSvc"
    using new old by metis
  have used: "List.map_filter locationsUsed (newEvents movedSys (snd (status simSvc movedSys))) =
      [svcLocations simSvc, svcLocations simSvc]"
    by (simp add: movedSys_def sim_run)
  show ?thesis using new old differ used by (simp add: simSvc_def)
qed

text \<open>
  Claim C9, amended.  The locations of a service are the ones that the environment gave
  when it was created, and every operation gives these to the calls it makes.  The plan
  is built in each run of \<open>pull\<close>, \<open>push\<close> and \<open>startupSync\<close> that reconciles, from the
  configuration that this run loaded, these locations and the platform.
\<close>

theorem locations_fixed_plan_rebuilt:
  "svcLocations (createSyncService c s0) = resolveSyncLocations (procEnv s0) (procPlatform s0) \<and>
   (pull svc s = (r1, s1) \<longrightarrow>
      list_all (locationsAre (svcLocations svc)) (newEvents s s1) \<and>
      (\<forall>config. configFiles s (syncConfigPath (svcLocations svc)) = Some config \<longrightarrow>
         list_all (planIs (buildSyncPlan config (svcLocations svc)
                      (resolveRepoRoot config (svcLocations svc)) (procPlatform s)))
           (newEvents s s1))) \<and>
   (push svc s = (r2, s2) \<longrightarrow>
      list_all (locationsAre (svcLocations svc)) (newEvents s s2) \<and>
      (\<forall>config. configFiles s (syncConfigPath (svcLocations svc)) = Some config \<longrightarrow>
         list_all (planIs (buildSyncPlan config (svcLocations svc)
                      (resolveRepoRoot config (svcLocations svc)) (procPlatform s)))
           (newEvents s s2))) \<and>
   (startupSync svc s = (u3, s3) \<longrightarrow>
      list_all (locationsAre (svcLocations svc)) (newEvents s s3) \<and>
      (\<forall>config. configFiles s (syncConfigPath (svcLocations svc)) = Some config \<longrightarrow>
         list_all (planIs (buildSyncPlan config (svcLocations svc)
                      (resolveRepoRoot config (svcLocations svc)) (procPlatform s)))
           (newEvents s s3))) \<and>
   (status svc s = (r4, s4) \<longrightarrow>
      list_all (locationsAre (svcLocations svc)) (newEvents s s4) \<and>
      List.map_filter planUsed (newEvents s s4) = []) \<and>
   (init svc options s = (r5, s5) \<longrightarrow>
      list_all (locationsAre (svcLocations svc)) (newEvents s s5) \<and>
      List.map_filter planUsed (newEvents s s5) = []) \<and>
   (enableSecrets svc extra s = (r6, s6) \<longrightarrow>
      list_all (locationsAre (svcLocations svc)) (newEvents s s6) \<and>
      List.map_filter planUsed (newEvents s s6) = [])"
proof -
  define Q where "Q = (\<lambda>(r :: error + jstring) s'.
      list_all (locationsAre (svcLocations svc)) (newEvents s s') \<and>
      (\<forall>config. configFiles s (syncConfigPath (svcLocations svc)) = Some config \<longrightarrow>
         list_all (planIs (buildSyncPlan config (svcLocations svc)
                      (resolveRepoRoot config (svcLocations svc)) (procPlatform s)))
           (newEvents s s')))"
  define Q3 where "Q3 = (\<lambda>(r :: error + unit) s'.
      list_all (locationsAre (svcLocations svc)) (newEvents s s') \<and>
      (\<forall>config. configFiles s (syncConfigPath (svcLocations svc)) = Some config \<longrightarrow>
         list_all (planIs (buildSyncPlan config (svcLocations svc)
                      (resolveRepoRoot config (svcLocations svc)) (procPlatform s)))
           (newEvents s s')))"
  define Q4 where "Q4 = (\<lambda>(r :: error + jstring) s'.
      list_all (locationsAre (svcLocations svc)) (newEvents s s') \<and>
      List.map_filter planUsed (newEvents s s') = [])"
  have p1: "wp (pull svc) Q s"
    unfolding flow_defs
    apply (simp add: exec_rules Let_def split del: if_split)
    apply (simp add: Q_def leaf_simps use_simps split del: if_split)
    done
  have p2: "wp (push svc) Q s"
    unfolding flow_defs
    apply (simp add: exec_rules Let_def split del: if_split)
    apply (simp add: Q_def leaf_simps use_simps split del: if_split)
    done
  have p3: "wp (startupSync svc) Q3 s"
    unfolding flow_defs
    apply (simp add: exec_rules Let_def split del: if_split)
    apply (simp add: Q3_def leaf_simps use_simps split del: if_split)
    done
  have p4: "wp (status svc) Q4 s"
    unfolding flow_defs
    apply (simp add: exec_rules Let_def split del: if_split)
    apply (simp add: Q4_def leaf_simps use_simps split del: if_split)
    done
  have p5: "wp (init svc options) Q4 s"
    unfolding flow_defs
    apply (simp add: exec_rules Let_def split del: if_split)
    apply (simp add: Q4_def leaf_simps use_simps split del: if_split)
    done
  have p6: "wp (enableSecrets svc extra) Q4 s"
    unfolding flow_defs
    apply (simp add: exec_rules Let_def split del: if_split)
    apply (simp add: Q4_def leaf_simps use_simps split del: if_split)
    done
  have p0: "svcLocations (createSyncService c s0) =
      resolveSyncLocations (procEnv s0) (procPlatform s0)"
    by (simp add: createSyncService_def)
  show ?thesis
    using wpD [OF p1, of r1 s1] wpD [OF p2, of r2 s2] wpD [OF p3, of u3 s3]
      wpD [OF p4, of r4 s4] wpD [OF p5, of r5 s5] wpD [OF p6, of r6 s6] p0
    unfolding Q_def Q3_def Q4_def by blast
qed

theorem locations_fixed_plan_rebuilt_witness:
  "configFiles aheadSys (syncConfigPath (svcLocations simSvc)) = Some (testConfig False) \<and>
   List.map_filter planUsed (newEvents aheadSys (snd (pull simSvc aheadSys))) =
     [buildSyncPlan (testConfig False) (svcLocations simSvc)
        (resolveRepoRoot (testConfig False) (svcLocations simSvc)) (procPlatform aheadSys)] \<and>
   list_all (planIs (buildSyncPlan (testConfig False) (svcLocations simSvc)
                      (resolveRepoRoot (testConfig False) (svcLocations simSvc))
                      (procPlatform aheadSys)))
     (newEvents aheadSys (snd (pull simSvc aheadSys))) \<and>
   List.map_filter locationsUsed (newEvents aheadSys (snd (pull simSvc aheadSys))) =
     [svcLocations simSvc, svcLocations simSvc, svcLocations simSvc] \<and>
   list_all (locationsAre (svcLocations simSvc)) (newEvents aheadSys (snd (pull simSvc aheadSys)))"
proof -
  let ?a = "pull simSvc aheadSys"
  have cfg: "configFiles aheadSys (syncConfigPath (svcLocations simSvc)) = Some (testConfig False)"
    by (simp add: aheadSys_def simSysWith_def)
  have used: "List.map_filter planUsed (newEvents aheadSys (snd ?a)) =
     [buildSyncPlan (testConfig False) (svcLocations simSvc)
        (resolveRepoRoot (testConfig False) (svcLocations simSvc)) (procPlatform aheadSys)]"
    by (simp add: aheadSys_def sim_run)
  have locs: "List.map_filter locationsUsed (newEvents aheadSys (snd ?a)) =
      [svcLocations simSvc, svcLocations simSvc, svcLocations simSvc]"
    by (simp add: aheadSys_def sim_run)
  note a = locations_fixed_plan_rebuilt [where svc = simSvc and s = aheadSys
      and ?r1.0 = "fst ?a" and ?s1.0 = "snd ?a", THEN conjunct2, THEN conjunct1,
      unfolded prod.collapse]
  have all: "list_all (planIs (buildSyncPlan (testConfig False) (svcLocations simSvc)
                      (resolveRepoRoot (testConfig False) (svcLocations simSvc))
                      (procPlatform aheadSys)))
           (newEvents aheadSys (snd ?a))"
    and allLoc: "list_all (locationsAre (svcLocations simSvc)) (newEvents aheadSys (snd ?a))"
    using a cfg by simp_all
  show ?thesis using cfg used all locs allLoc by simp
qed

end
